theory Spec2Isabelle
  imports Complex_Main "HOL-Library.AList"
begin

section \<open>Numbers, identifiers and responses\<close>

text \<open>
  A JavaScript number is a double: the result of a division or of a multiplication is
  the double nearest to the exact result, a tie going to the even mantissa. A double has
  a mantissa of 53 bits; \<open>exponent a\<close> is the power of two at or below \<open>a\<close>, found with
  at most 1024 halvings or 1022 doublings, so that below \<open>2 ^ -1022\<close> the spacing stays
  the one of the subnormal numbers. \<open>round_double\<close> is this rounding for a result inside
  the range of doubles. Integers below \<open>2 ^ 53\<close>, the counts and their sums among them,
  are doubles and are added exactly.
\<close>

definition round_half_even :: "real \<Rightarrow> int" where
  "round_half_even x =
     (let f = \<lfloor>x\<rfloor>; r = x - of_int f
      in if r < 1 / 2 then f else if 1 / 2 < r then f + 1 else if even f then f else f + 1)"

fun halvings :: "nat \<Rightarrow> real \<Rightarrow> nat" where
  "halvings 0 a = 0"
| "halvings (Suc k) a = (if a < 2 then 0 else Suc (halvings k (a / 2)))"

fun doublings :: "nat \<Rightarrow> real \<Rightarrow> nat" where
  "doublings 0 a = 0"
| "doublings (Suc k) a = (if 1 \<le> a then 0 else Suc (doublings k (a * 2)))"

definition exponent :: "real \<Rightarrow> int" where
  "exponent a = (if 1 \<le> a then int (halvings 1024 a) else - int (doublings 1022 a))"

definition pow2 :: "int \<Rightarrow> real" where
  "pow2 e = (if 0 \<le> e then 2 ^ nat e else 1 / 2 ^ nat (- e))"

definition round_double :: "real \<Rightarrow> real" where
  "round_double x =
     (if x = 0 then 0
      else let a = \<bar>x\<bar>; q = pow2 (exponent a - 52);
               v = of_int (round_half_even (a / q)) * q
           in if 0 < x then v else - v)"

text \<open>
  The quotient and the product of two doubles whose result stays inside the range of
  doubles, as every rate does: a rate is computed from two counts, the first at most the
  second.
\<close>

definition double_divide :: "real \<Rightarrow> real \<Rightarrow> real" where
  "double_divide a b = round_double (a / b)"

definition double_times :: "real \<Rightarrow> real \<Rightarrow> real" where
  "double_times a b = round_double (a * b)"

text \<open>\<open>Math.round\<close> rounds a double to the nearest integer, a half going up.\<close>

definition Math_round :: "real \<Rightarrow> int" where
  "Math_round x = \<lfloor>x + 1 / 2\<rfloor>"

text \<open>
  The points of a grade come from a request body and may be any number that JSON can
  write, so a result may leave the finite range. \<open>Num x\<close> stands for the double nearest
  to \<open>x\<close>, which is \<open>Infinity\<close> when the rounded value reaches \<open>2 ^ 1024\<close>, that is
  when the exponent is 1024 or the mantissa rounds up to \<open>2 ^ 53\<close> at exponent 1023;
  every operation reads its operands so. The sign of a zero is not kept: a division by zero, which no accepted request
  performs, is taken to be by the positive zero.
\<close>

datatype number = Num real | Infinity | NegInfinity | NaN

definition mantissa :: "real \<Rightarrow> int" where
  "mantissa a = round_half_even (a / pow2 (exponent a - 52))"

definition overflows :: "real \<Rightarrow> bool" where
  "overflows a = (1024 \<le> exponent a \<or> (exponent a = 1023 \<and> 2 ^ 53 \<le> mantissa a))"

definition to_double :: "real \<Rightarrow> number" where
  "to_double x =
     (if x = 0 then Num 0
      else if overflows \<bar>x\<bar> then (if 0 < x then Infinity else NegInfinity)
      else Num (round_double x))"

definition double :: "number \<Rightarrow> number" where
  "double n = (case n of Num x \<Rightarrow> to_double x | _ \<Rightarrow> n)"

fun divide_doubles :: "number \<Rightarrow> number \<Rightarrow> number" where
  "divide_doubles NaN b = NaN"
| "divide_doubles a NaN = NaN"
| "divide_doubles (Num x) (Num y) =
     (if y = 0 then (if x = 0 then NaN else if 0 < x then Infinity else NegInfinity)
      else to_double (x / y))"
| "divide_doubles (Num x) b = Num 0"
| "divide_doubles Infinity (Num y) = (if 0 \<le> y then Infinity else NegInfinity)"
| "divide_doubles NegInfinity (Num y) = (if 0 \<le> y then NegInfinity else Infinity)"
| "divide_doubles a b = NaN"

fun times_doubles :: "number \<Rightarrow> number \<Rightarrow> number" where
  "times_doubles NaN b = NaN"
| "times_doubles a NaN = NaN"
| "times_doubles (Num x) (Num y) = to_double (x * y)"
| "times_doubles (Num x) Infinity =
     (if x = 0 then NaN else if 0 < x then Infinity else NegInfinity)"
| "times_doubles (Num x) NegInfinity =
     (if x = 0 then NaN else if 0 < x then NegInfinity else Infinity)"
| "times_doubles Infinity (Num y) =
     (if y = 0 then NaN else if 0 < y then Infinity else NegInfinity)"
| "times_doubles NegInfinity (Num y) =
     (if y = 0 then NaN else if 0 < y then NegInfinity else Infinity)"
| "times_doubles Infinity Infinity = Infinity"
| "times_doubles NegInfinity NegInfinity = Infinity"
| "times_doubles a b = NegInfinity"

fun less_doubles :: "number \<Rightarrow> number \<Rightarrow> bool" where
  "less_doubles NaN b = False"
| "less_doubles a NaN = False"
| "less_doubles (Num x) (Num y) = (x < y)"
| "less_doubles a Infinity = (a \<noteq> Infinity)"
| "less_doubles NegInfinity b = (b \<noteq> NegInfinity)"
| "less_doubles a b = False"

definition js_divide :: "number \<Rightarrow> number \<Rightarrow> number" where
  "js_divide a b = divide_doubles (double a) (double b)"

definition js_times :: "number \<Rightarrow> number \<Rightarrow> number" where
  "js_times a b = times_doubles (double a) (double b)"

definition js_less :: "number \<Rightarrow> number \<Rightarrow> bool" where
  "js_less a b = less_doubles (double a) (double b)"

text \<open>\<open>a <= b\<close> holds of two doubles when \<open>a < b\<close> or both are the same number.\<close>

definition js_lesseq :: "number \<Rightarrow> number \<Rightarrow> bool" where
  "js_lesseq a b =
     (less_doubles (double a) (double b) \<or> (double a = double b \<and> double a \<noteq> NaN))"

type_synonym objectId = string

text \<open>
  A handler answers either \<open>res.json({success: true, data})\<close>, status 200, or
  \<open>res.status(n).json({success: false, message})\<close>, which carries no data. An exception
  that escapes a handler is passed by \<open>asyncHandler\<close> to the error middleware, which is
  not among these sources: \<open>Thrown\<close> records the exception and no reply is modelled.
\<close>

datatype 'a response = Json200 'a | JsonError nat string | Thrown string

section \<open>Grades: derived fields\<close>

text \<open>The chain of comparisons in \<open>POST /grades\<close> (lines 156 to 168).\<close>

definition createGrade_letter :: "real \<Rightarrow> string" where
  "createGrade_letter percentage =
     (if percentage \<ge> 90 then ''A+''
      else if percentage \<ge> 85 then ''A''
      else if percentage \<ge> 80 then ''A-''
      else if percentage \<ge> 75 then ''B+''
      else if percentage \<ge> 70 then ''B''
      else if percentage \<ge> 65 then ''B-''
      else if percentage \<ge> 60 then ''C+''
      else if percentage \<ge> 55 then ''C''
      else if percentage \<ge> 50 then ''C-''
      else if percentage \<ge> 45 then ''D''
      else ''F'')"

text \<open>The chain of comparisons in \<open>PUT /grades/:id\<close> (lines 270 to 281).\<close>

definition updateGrade_letter :: "real \<Rightarrow> string" where
  "updateGrade_letter percentage =
     (if percentage \<ge> 90 then ''A+''
      else if percentage \<ge> 85 then ''A''
      else if percentage \<ge> 80 then ''A-''
      else if percentage \<ge> 75 then ''B+''
      else if percentage \<ge> 70 then ''B''
      else if percentage \<ge> 65 then ''B-''
      else if percentage \<ge> 60 then ''C+''
      else if percentage \<ge> 55 then ''C''
      else if percentage \<ge> 50 then ''C-''
      else if percentage \<ge> 45 then ''D''
      else ''F'')"

text \<open>
  The table as the specification words it: a list of inclusive lower bounds, read from the
  top, and \<open>F\<close> below the last bound.
\<close>

definition threshold_table :: "(real \<times> string) list" where
  "threshold_table =
     [(90, ''A+''), (85, ''A''), (80, ''A-''), (75, ''B+''), (70, ''B''), (65, ''B-''),
      (60, ''C+''), (55, ''C''), (50, ''C-''), (45, ''D'')]"

fun table_lookup :: "(real \<times> string) list \<Rightarrow> real \<Rightarrow> string" where
  "table_lookup [] p = ''F''"
| "table_lookup ((bound, letter) # rest) p = (if bound \<le> p then letter else table_lookup rest p)"

definition letterGrade_spec :: "real \<Rightarrow> string" where
  "letterGrade_spec p = table_lookup threshold_table p"

section \<open>Documents of the record store\<close>

text \<open>
  The fields of the schemas under \<open>models/\<close> that the handlers below read. Dates are
  timestamps in milliseconds. An optional reference that a document does not carry is
  \<open>None\<close>. Identifiers are strings, taken to be well formed, so that no lookup fails
  on a cast.
\<close>

record user =
  user_id :: objectId
  role :: string

record student_doc =
  student_id :: objectId
  student_user :: objectId
  student_parent :: "objectId option"
  student_class :: objectId
  student_section :: objectId

record course_doc =
  course_id :: objectId
  instructor :: objectId
  enrolledStudents :: "objectId list"
  maxEnrollment :: "nat option"

record teacher_doc =
  teacher_id :: objectId
  teacher_user :: objectId

record attendance =
  attendance_id :: nat
  att_student :: objectId
  att_course :: objectId
  att_date :: int
  att_status :: string
  att_method :: string
  att_markedBy :: objectId

record grade =
  grade_id :: objectId
  grade_student :: objectId
  grade_course :: objectId
  pointsEarned :: "number option"
  maxPoints :: "number option"
  percentage :: "number option"
  letterGrade :: "string option"
  feedback :: "string option"

record database =
  students :: "student_doc list"
  courses :: "course_doc list"
  teachers :: "teacher_doc list"
  attendances :: "attendance list"
  grades :: "grade list"

text \<open>
  A value taken from a request body or query string is absent (\<open>None\<close>) or a string;
  JavaScript treats the absent value and the empty string as false.
\<close>

definition truthy :: "string option \<Rightarrow> bool" where
  "truthy v = (case v of None \<Rightarrow> False | Some s \<Rightarrow> s \<noteq> [])"

section \<open>Attendance of one student\<close>

text \<open>
  \<open>GET /attendance/student/:studentId\<close>. The query carries optional bounds on the date
  and an optional course. \<open>Attendance.find(query)\<close> returns the stored records of the
  student, of the course when one is given, whose date lies between the bounds given.
\<close>

record student_attendance_query =
  query_startDate :: "int option"
  query_endDate :: "int option"
  query_course :: "string option"

definition date_in_range :: "int option \<Rightarrow> int option \<Rightarrow> int \<Rightarrow> bool" where
  "date_in_range lo hi d =
     ((case lo of None \<Rightarrow> True | Some a \<Rightarrow> a \<le> d) \<and> (case hi of None \<Rightarrow> True | Some b \<Rightarrow> d \<le> b))"

definition student_query_matches :: "objectId \<Rightarrow> student_attendance_query \<Rightarrow> attendance \<Rightarrow> bool" where
  "student_query_matches studentId q r =
     (att_student r = studentId
      \<and> (if truthy (query_course q) then att_course r = the (query_course q) else True)
      \<and> date_in_range (query_startDate q) (query_endDate q) (att_date r))"

record statistics =
  total :: nat
  present :: nat
  absent :: int
  attendanceRate :: int

text \<open>Lines 657 to 673: the counts and the rate over all matching records.\<close>

definition student_statistics :: "attendance list \<Rightarrow> statistics" where
  "student_statistics allRecords =
     (let presentCount = length (filter (\<lambda>record. att_status record = ''present'') allRecords);
          totalCount = length allRecords;
          rate = (if totalCount > 0
                  then Math_round
                         (double_times (double_divide (real presentCount) (real totalCount)) 100)
                  else 0)
      in \<lparr>total = totalCount, present = presentCount,
          absent = int totalCount - int presentCount, attendanceRate = rate\<rparr>)"

text \<open>
  Lines 622 to 636: the two refusals. Nothing is checked for a caller whose role is
  neither \<open>student\<close> nor \<open>parent\<close>, and a parent is refused only when the student has a
  parent reference that differs from the caller.
\<close>

definition attendance_refused :: "user \<Rightarrow> student_doc \<Rightarrow> bool" where
  "attendance_refused caller student =
     (role caller \<noteq> ''admin'' \<and>
      ((role caller = ''student'' \<and> student_user student \<noteq> user_id caller) \<or>
       (role caller = ''parent'' \<and>
          (case student_parent student of None \<Rightarrow> False | Some p \<Rightarrow> p \<noteq> user_id caller))))"

definition not_authorized_attendance :: string where
  "not_authorized_attendance =
     ''Not authorized to view this student'' @ [CHR 0x27] @ ''s attendance''"

text \<open>
  The handler. Its reply also holds one page of the records and the page counts, which
  nothing below reads; the model keeps the statistics.
\<close>

definition getStudentAttendance ::
  "database \<Rightarrow> user \<Rightarrow> objectId \<Rightarrow> student_attendance_query \<Rightarrow> statistics response" where
  "getStudentAttendance db caller studentId q =
     (case find (\<lambda>s. student_id s = studentId) (students db) of
        None \<Rightarrow> JsonError 404 ''Student not found''
      | Some student \<Rightarrow>
          if attendance_refused caller student then JsonError 403 not_authorized_attendance
          else Json200 (student_statistics
                 (filter (student_query_matches studentId q) (attendances db))))"

section \<open>Marking attendance in a batch\<close>

text \<open>
  \<open>POST /attendance/mark\<close>. An element of \<open>attendanceRecords\<close> carries the fields the
  loop destructures. Its date is absent, a whole number, which \<open>new Date\<close> reads as a
  time value in milliseconds, or a string that is not empty: \<open>TextDate t\<close> is a string
  that \<open>new Date\<close> reads as the time value \<open>t\<close>, and \<open>UnreadableText\<close> a string that
  it cannot read, which gives an invalid date. The absent date and the number 0 are false
  for JavaScript; every string here is true.
\<close>

datatype date_value = NumericDate int | TextDate int | UnreadableText

record mark_record =
  rec_student :: "string option"
  rec_course :: "string option"
  rec_date :: "date_value option"
  rec_status :: "string option"
  rec_method :: "string option"

record mark_result =
  result_record :: mark_record
  result_status :: string
  attendanceId :: nat

record mark_error =
  error_record :: mark_record
  error_message :: string

definition date_falsy :: "date_value option \<Rightarrow> bool" where
  "date_falsy d =
     (case d of
        None \<Rightarrow> True
      | Some (NumericDate n) \<Rightarrow> n = 0
      | Some (TextDate t) \<Rightarrow> False
      | Some UnreadableText \<Rightarrow> False)"

text \<open>
  A time value lies within 8640000000000000 milliseconds of the epoch; beyond, the date
  is invalid and its time value is \<open>NaN\<close>, here \<open>None\<close>.
\<close>

definition max_time :: int where
  "max_time = 8640000000000000"

definition valid_time :: "int \<Rightarrow> bool" where
  "valid_time t = (- max_time \<le> t \<and> t \<le> max_time)"

definition time_value :: "date_value \<Rightarrow> int option" where
  "time_value d =
     (case d of
        NumericDate n \<Rightarrow> if valid_time n then Some n else None
      | TextDate u \<Rightarrow> if valid_time u then Some u else None
      | UnreadableText \<Rightarrow> None)"

text \<open>
  \<open>setHours(0, 0, 0, 0)\<close> and \<open>setHours(24, 0, 0, 0)\<close> give the first instant of the
  local day of a date and of the next local day, in the time zone of the server. The zone
  is a parameter of the model: two functions from an instant to these two instants. Each
  result is a time value or, out of range, \<open>NaN\<close>.
\<close>

record zone =
  startOfDay :: "int \<Rightarrow> int"
  startOfNextDay :: "int \<Rightarrow> int"

definition day_bounds :: "zone \<Rightarrow> date_value \<Rightarrow> (int \<times> int) option" where
  "day_bounds tz d =
     (case time_value d of
        None \<Rightarrow> None
      | Some t \<Rightarrow>
          if valid_time (startOfDay tz t) \<and> valid_time (startOfNextDay tz t)
          then Some (startOfDay tz t, startOfNextDay tz t) else None)"

definition same_day_record :: "objectId \<Rightarrow> objectId \<Rightarrow> int \<times> int \<Rightarrow> attendance \<Rightarrow> bool" where
  "same_day_record student course bounds a =
     (att_student a = student \<and> att_course a = course
      \<and> fst bounds \<le> att_date a \<and> att_date a < snd bounds)"

text \<open>
  Lines 495 to 502: \<open>Attendance.findOne\<close> on student, course and the two bounds of the
  day. A bound that is \<open>NaN\<close> cannot be cast to a date, and the query throws.
\<close>

definition existingAttendance ::
  "database \<Rightarrow> objectId \<Rightarrow> objectId \<Rightarrow> int \<times> int \<Rightarrow> attendance option" where
  "existingAttendance db student course bounds =
     find (same_day_record student course bounds) (attendances db)"

text \<open>
  \<open>Attendance.create\<close> with the schema of \<open>models/Attendance.js\<close>: the status and the
  method must belong to their enumerations, and the unique index on student, date and
  course refuses a second record with the same three values. A refusal is an exception
  whose text is the store's; the model keeps one fixed text for each. The store chooses
  the identifier of the new record; the model takes the least number above those in use.
\<close>

definition status_enum :: "string list" where
  "status_enum = [''present'', ''absent'', ''late'', ''excused'']"

definition method_enum :: "string list" where
  "method_enum = [''manual'', ''biometric'', ''gps'']"

definition new_attendance_id :: "database \<Rightarrow> nat" where
  "new_attendance_id db = fold (\<lambda>a m. max (Suc (attendance_id a)) m) (attendances db) 0"

definition Attendance_create ::
  "database \<Rightarrow> objectId \<Rightarrow> objectId \<Rightarrow> int \<Rightarrow> string \<Rightarrow> string \<Rightarrow> objectId
     \<Rightarrow> string + attendance \<times> database" where
  "Attendance_create db student course date status method markedBy =
     (if status \<notin> set status_enum \<or> method \<notin> set method_enum
      then Inl ''Attendance validation failed''
      else if list_ex (\<lambda>a. att_student a = student \<and> att_date a = date \<and> att_course a = course)
                (attendances db)
      then Inl ''E11000 duplicate key error''
      else let a = \<lparr>attendance_id = new_attendance_id db, att_student = student,
                     att_course = course, att_date = date, att_status = status,
                     att_method = method, att_markedBy = markedBy\<rparr>
           in Inr (a, db\<lparr>attendances := attendances db @ [a]\<rparr>))"

definition missing_required :: "mark_record \<Rightarrow> bool" where
  "missing_required record =
     (\<not> truthy (rec_student record) \<or> \<not> truthy (rec_course record)
      \<or> date_falsy (rec_date record) \<or> \<not> truthy (rec_status record))"

text \<open>Line 485 and 486: the course exists and lists the student.\<close>

definition enrolled_in :: "database \<Rightarrow> objectId \<Rightarrow> objectId \<Rightarrow> bool" where
  "enrolled_in db student course =
     (case find (\<lambda>c. course_id c = course) (courses db) of
        None \<Rightarrow> False
      | Some courseDoc \<Rightarrow> student \<in> set (enrolledStudents courseDoc))"

text \<open>
  One turn of the loop of lines 471 to 545, on the two lists and the store. The socket
  notification after a creation has no effect on either and is left out.
\<close>

definition mark_step ::
  "zone \<Rightarrow> user \<Rightarrow> mark_record \<Rightarrow> mark_result list \<times> mark_error list \<times> database
     \<Rightarrow> mark_result list \<times> mark_error list \<times> database" where
  "mark_step tz caller record acc =
     (case acc of (results, errors, db) \<Rightarrow>
        if missing_required record
        then (results,
              errors @ [\<lparr>error_record = record,
                         error_message = ''Missing required fields: student, course, date, status''\<rparr>],
              db)
        else
          let student = the (rec_student record); course = the (rec_course record);
              date = the (rec_date record); status = the (rec_status record);
              method = (case rec_method record of None \<Rightarrow> ''manual'' | Some m \<Rightarrow> m)
          in if \<not> enrolled_in db student course
             then (results,
                   errors @ [\<lparr>error_record = record,
                              error_message = ''Student is not enrolled in this course''\<rparr>],
                   db)
             else
               (case day_bounds tz date of
                  None \<Rightarrow>
                    (results,
                     errors @ [\<lparr>error_record = record, error_message = ''Cast to date failed''\<rparr>],
                     db)
                | Some bounds \<Rightarrow>
                    (case existingAttendance db student course bounds of
                       Some existing \<Rightarrow>
                         (results @ [\<lparr>result_record = record, result_status = ''already_marked'',
                                      attendanceId = attendance_id existing\<rparr>],
                          errors, db)
                     | None \<Rightarrow>
                         (case Attendance_create db student course (the (time_value date))
                                 status method (user_id caller) of
                            Inr (created, db') \<Rightarrow>
                              (results @ [\<lparr>result_record = record, result_status = ''marked'',
                                           attendanceId = attendance_id created\<rparr>],
                               errors, db')
                          | Inl message \<Rightarrow>
                              (results,
                               errors @ [\<lparr>error_record = record, error_message = message\<rparr>],
                               db)))))"

fun mark_loop ::
  "zone \<Rightarrow> user \<Rightarrow> mark_record list \<Rightarrow> mark_result list \<times> mark_error list \<times> database
     \<Rightarrow> mark_result list \<times> mark_error list \<times> database" where
  "mark_loop tz caller [] acc = acc"
| "mark_loop tz caller (record # rest) acc =
     mark_loop tz caller rest (mark_step tz caller record acc)"

record mark_data =
  results :: "mark_result list"
  errors :: "mark_error list"
  processed :: nat
  failed :: nat

text \<open>
  The handler, for a caller that \<open>checkRole\<close> has let through; a body whose
  \<open>attendanceRecords\<close> is not an array is answered like the empty array.
\<close>

definition markAttendance ::
  "zone \<Rightarrow> database \<Rightarrow> user \<Rightarrow> mark_record list \<Rightarrow> mark_data response \<times> database" where
  "markAttendance tz db caller attendanceRecords =
     (if attendanceRecords = [] then (JsonError 400 ''Please provide attendance records'', db)
      else (case mark_loop tz caller attendanceRecords ([], [], db) of
              (res, errs, db') \<Rightarrow>
                (Json200 \<lparr>results = res, errors = errs,
                          processed = length res, failed = length errs\<rparr>, db')))"

section \<open>Attendance of a class\<close>

text \<open>
  \<open>GET /attendance/class/:classId\<close>. \<open>attendanceByStudent\<close> is an object keyed by
  student identifier; it is modelled as an association list in the order of insertion,
  where a write to a key that is present replaces its value in place.
\<close>

record class_attendance_query =
  class_startDate :: "int option"
  class_endDate :: "int option"
  class_section :: "string option"

record class_statistics =
  stat_total :: nat
  stat_present :: nat
  stat_absent :: nat
  stat_rate :: int

record student_entry =
  entry_student :: "student_doc option"
  entry_records :: "attendance list"
  entry_statistics :: class_statistics

type_synonym by_student = "(objectId \<times> student_entry) list"

text \<open>Lines 691 to 694: the students of the class, of the section when one is given.\<close>

definition class_students :: "database \<Rightarrow> objectId \<Rightarrow> string option \<Rightarrow> student_doc list" where
  "class_students db classId sect =
     filter (\<lambda>s. student_class s = classId
                \<and> (if truthy sect then student_section s = the sect else True))
       (students db)"

text \<open>Lines 698 to 709: the records of these students within the bounds.\<close>

definition class_records :: "database \<Rightarrow> objectId list \<Rightarrow> int option \<Rightarrow> int option \<Rightarrow> attendance list" where
  "class_records db studentIds lo hi =
     filter (\<lambda>r. att_student r \<in> set studentIds \<and> date_in_range lo hi (att_date r))
       (attendances db)"

text \<open>Lines 712 to 719: one empty entry for each student.\<close>

definition init_entry :: "student_doc list \<Rightarrow> objectId \<Rightarrow> student_entry" where
  "init_entry studs studentId =
     \<lparr>entry_student = find (\<lambda>s. student_id s = studentId) studs, entry_records = [],
      entry_statistics = \<lparr>stat_total = 0, stat_present = 0, stat_absent = 0, stat_rate = 0\<rparr>\<rparr>"

definition init_by_student :: "student_doc list \<Rightarrow> objectId list \<Rightarrow> by_student" where
  "init_by_student studs studentIds =
     fold (\<lambda>studentId m. AList.update studentId (init_entry studs studentId) m) studentIds []"

text \<open>Lines 721 to 733: each record is added to the entry of its student, when there is one.\<close>

definition count_record :: "attendance \<Rightarrow> student_entry \<Rightarrow> student_entry" where
  "count_record record e =
     (let s = entry_statistics e;
          s1 = s\<lparr>stat_total := stat_total s + 1\<rparr>;
          s2 = (if att_status record = ''present''
                then s1\<lparr>stat_present := stat_present s1 + 1\<rparr>
                else s1\<lparr>stat_absent := stat_absent s1 + 1\<rparr>)
      in e\<lparr>entry_records := entry_records e @ [record], entry_statistics := s2\<rparr>)"

definition add_record :: "attendance \<Rightarrow> by_student \<Rightarrow> by_student" where
  "add_record record m =
     (case map_of m (att_student record) of
        None \<Rightarrow> m
      | Some e \<Rightarrow> AList.update (att_student record) (count_record record e) m)"

text \<open>Lines 736 to 742: the rate of each student with a record.\<close>

definition set_rate :: "student_entry \<Rightarrow> student_entry" where
  "set_rate e =
     (let s = entry_statistics e
      in if stat_total s > 0
         then e\<lparr>entry_statistics :=
                  s\<lparr>stat_rate :=
                      Math_round
                        (double_times
                           (double_divide (real (stat_present s)) (real (stat_total s))) 100)\<rparr>\<rparr>
         else e)"

text \<open>Lines 745 to 750: the average over the students with a record.\<close>

definition class_average :: "student_entry list \<Rightarrow> int" where
  "class_average entries =
     (let allRates = map (\<lambda>s. stat_rate (entry_statistics s))
                       (filter (\<lambda>s. stat_total (entry_statistics s) > 0) entries)
      in if length allRates > 0
         then Math_round
                (double_divide (real_of_int (fold (\<lambda>rate sum. sum + rate) allRates 0))
                   (real (length allRates)))
         else 0)"

record class_summary =
  totalStudents :: nat
  studentsWithAttendance :: nat
  classAverage :: int

record class_attendance_data =
  attendanceByStudent :: by_student
  classSummary :: class_summary

definition getClassAttendance ::
  "database \<Rightarrow> objectId \<Rightarrow> class_attendance_query \<Rightarrow> class_attendance_data response" where
  "getClassAttendance db classId q =
     (let studs = class_students db classId (class_section q);
          studentIds = map student_id studs;
          attendanceRecords = class_records db studentIds (class_startDate q) (class_endDate q);
          grouped = fold add_record attendanceRecords (init_by_student studs studentIds);
          rated = map (\<lambda>(k, e). (k, set_rate e)) grouped
      in Json200
           \<lparr>attendanceByStudent = rated,
            classSummary =
              \<lparr>totalStudents = length studentIds,
               studentsWithAttendance =
                 length (filter (\<lambda>s. stat_total (entry_statistics s) > 0) (map snd rated)),
               classAverage = class_average (map snd rated)\<rparr>\<rparr>)"

section \<open>Updating a grade\<close>

text \<open>
  \<open>PUT /grades/:id\<close>. The body carries any of the three fields; an absent field is
  \<open>undefined\<close>. A comparison with \<open>undefined\<close> is false.
\<close>

record grade_body =
  body_pointsEarned :: "number option"
  body_maxPoints :: "number option"
  body_feedback :: "string option"

definition greater_than :: "number \<Rightarrow> number option \<Rightarrow> bool" where
  "greater_than x y = (case y of None \<Rightarrow> False | Some b \<Rightarrow> js_less b x)"

text \<open>
  The expression \<open>(pointsEarned / maxPoints) * 100\<close> of lines 155 and 267, and the chain
  of comparisons applied to its value: \<open>Infinity\<close> passes the first comparison, \<open>NaN\<close>
  and \<open>-Infinity\<close> pass none.
\<close>

definition percentage_of :: "number \<Rightarrow> number \<Rightarrow> number" where
  "percentage_of pe mp = js_times (js_divide pe mp) (Num 100)"

definition letter_of :: "(real \<Rightarrow> string) \<Rightarrow> number \<Rightarrow> string" where
  "letter_of chain p =
     (case double p of Num x \<Rightarrow> chain x | Infinity \<Rightarrow> ''A+'' | NegInfinity \<Rightarrow> ''F'' | NaN \<Rightarrow> ''F'')"

text \<open>
  \<open>grade.save()\<close> with the schema of \<open>models/Grade.js\<close>: both numbers are required,
  \<open>pointsEarned\<close> is at least 0 and \<open>maxPoints\<close> at least 1, and a percentage that is
  \<open>NaN\<close> cannot be cast to a number. A refusal is an exception.
\<close>

definition grade_valid :: "grade \<Rightarrow> bool" where
  "grade_valid g =
     (case (pointsEarned g, maxPoints g) of
        (Some pe, Some mp) \<Rightarrow>
          js_lesseq (Num 0) pe \<and> js_lesseq (Num 1) mp \<and> percentage g \<noteq> Some NaN
      | _ \<Rightarrow> False)"

definition save_grade :: "database \<Rightarrow> grade \<Rightarrow> database option" where
  "save_grade db g =
     (if grade_valid g
      then Some (db\<lparr>grades := map (\<lambda>x. if grade_id x = grade_id g then g else x) (grades db)\<rparr>)
      else None)"

text \<open>
  Lines 232 to 241: a teacher must have a profile whose identifier is the instructor of
  the course of the grade. Reading the instructor of a course that is not found is an
  exception.
\<close>

datatype gate = Allowed | Denied | Raised

definition update_gate :: "database \<Rightarrow> user \<Rightarrow> grade \<Rightarrow> gate" where
  "update_gate db caller g =
     (if role caller = ''teacher''
      then (case find (\<lambda>t. teacher_user t = user_id caller) (teachers db) of
              None \<Rightarrow> Denied
            | Some teacher \<Rightarrow>
                (case find (\<lambda>c. course_id c = grade_course g) (courses db) of
                   None \<Rightarrow> Raised
                 | Some courseDoc \<Rightarrow>
                     if instructor courseDoc = teacher_id teacher then Allowed else Denied))
      else Allowed)"

text \<open>Lines 243 to 288: the fields of the grade after the body is applied.\<close>

definition apply_pointsEarned :: "grade_body \<Rightarrow> grade \<Rightarrow> grade" where
  "apply_pointsEarned body g =
     (case body_pointsEarned body of None \<Rightarrow> g | Some x \<Rightarrow> g\<lparr>pointsEarned := Some x\<rparr>)"

definition apply_maxPoints :: "grade_body \<Rightarrow> grade \<Rightarrow> grade" where
  "apply_maxPoints body g =
     (case body_maxPoints body of None \<Rightarrow> g | Some x \<Rightarrow> g\<lparr>maxPoints := Some x\<rparr>)"

definition recompute :: "grade \<Rightarrow> grade" where
  "recompute g =
     (case (pointsEarned g, maxPoints g) of
        (Some pe, Some mp) \<Rightarrow>
          (let pct = percentage_of pe mp
           in g\<lparr>percentage := Some pct, letterGrade := Some (letter_of updateGrade_letter pct)\<rparr>)
      | _ \<Rightarrow> g)"

definition apply_feedback :: "grade_body \<Rightarrow> grade \<Rightarrow> grade" where
  "apply_feedback body g =
     (case body_feedback body of None \<Rightarrow> g | Some f \<Rightarrow> g\<lparr>feedback := Some f\<rparr>)"

text \<open>
  The handler, for a caller that \<open>checkRole\<close> has let through. The socket notification
  after the save is left out.
\<close>

definition updateGrade ::
  "database \<Rightarrow> user \<Rightarrow> objectId \<Rightarrow> grade_body \<Rightarrow> grade response \<times> database" where
  "updateGrade db caller gradeId body =
     (case find (\<lambda>g. grade_id g = gradeId) (grades db) of
        None \<Rightarrow> (JsonError 404 ''Grade not found'', db)
      | Some g \<Rightarrow>
          (case update_gate db caller g of
             Denied \<Rightarrow> (JsonError 403 ''Not authorized to update this grade'', db)
           | Raised \<Rightarrow> (Thrown ''TypeError'', db)
           | Allowed \<Rightarrow>
               if (case body_pointsEarned body of
                     None \<Rightarrow> False
                   | Some x \<Rightarrow> js_less x (Num 0) \<or> greater_than x (body_maxPoints body))
               then (JsonError 400 ''Points earned must be between 0 and max points'', db)
               else if (case body_maxPoints body of
                          None \<Rightarrow> False
                        | Some x \<Rightarrow> js_lesseq x (Num 0))
               then (JsonError 400 ''Max points must be greater than 0'', db)
               else
                 (let g' = apply_feedback body
                             (recompute (apply_maxPoints body (apply_pointsEarned body g)))
                  in case save_grade db g' of
                       None \<Rightarrow> (Thrown ''Grade validation failed'', db)
                     | Some db' \<Rightarrow> (Json200 g', db'))))"

text \<open>Lines 155 to 168 of \<open>POST /grades\<close>: the two derived fields of a new grade.\<close>

definition createGrade_derived :: "number \<Rightarrow> number \<Rightarrow> number \<times> string" where
  "createGrade_derived pe mp =
     (let pct = percentage_of pe mp in (pct, letter_of createGrade_letter pct))"

section \<open>Enrolling students in a course\<close>

text \<open>A number inside a template literal is printed in decimal.\<close>

definition digit :: "nat \<Rightarrow> char" where
  "digit d = ''0123456789'' ! d"

function show_nat :: "nat \<Rightarrow> string" where
  "show_nat n = (if n < 10 then [digit n] else show_nat (n div 10) @ [digit (n mod 10)])"
  by pat_completeness auto
termination
  by (relation "measure id") auto

declare show_nat.simps [simp del]

fun join_comma :: "string list \<Rightarrow> string" where
  "join_comma [] = []"
| "join_comma [x] = x"
| "join_comma (x # y # rest) = x @ '', '' @ join_comma (y # rest)"

record enroll_data =
  enroll_message :: string
  enroll_course :: course_doc
  newlyEnrolled :: "objectId list option"

definition over_capacity :: "course_doc \<Rightarrow> objectId list \<Rightarrow> bool" where
  "over_capacity c studs =
     (case maxEnrollment c of
        None \<Rightarrow> False
      | Some m \<Rightarrow> m \<noteq> 0 \<and> length (enrolledStudents c) + length studs > m)"

definition save_course :: "database \<Rightarrow> course_doc \<Rightarrow> database" where
  "save_course db c = db\<lparr>courses := map (\<lambda>x. if course_id x = course_id c then c else x) (courses db)\<rparr>"

text \<open>
  \<open>POST /courses/:id/enroll\<close>, for a caller that \<open>checkRole\<close> has let through; a body
  whose \<open>students\<close> is not an array is answered like the empty array.
\<close>

definition enrollStudents ::
  "database \<Rightarrow> objectId \<Rightarrow> objectId list \<Rightarrow> enroll_data response \<times> database" where
  "enrollStudents db courseId studs =
     (if studs = [] then (JsonError 400 ''Please provide an array of student IDs'', db)
      else
        (case find (\<lambda>c. course_id c = courseId) (courses db) of
           None \<Rightarrow> (JsonError 404 ''Course not found'', db)
         | Some c \<Rightarrow>
             if over_capacity c studs
             then (JsonError 400
                     (''Cannot enroll more than '' @ show_nat (the (maxEnrollment c))
                        @ '' students in this course''), db)
             else
               (let existingStudentIds =
                      map student_id (filter (\<lambda>s. student_id s \<in> set studs) (students db));
                    notFoundStudents = filter (\<lambda>s. s \<notin> set existingStudentIds) studs
                in if length notFoundStudents > 0
                   then (JsonError 404 (''Students not found: '' @ join_comma notFoundStudents), db)
                   else
                     (let newStudents = filter (\<lambda>s. s \<notin> set (enrolledStudents c)) studs
                      in if length newStudents = 0
                         then (Json200 \<lparr>enroll_message = ''Students already enrolled in course'',
                                        enroll_course = c, newlyEnrolled = None\<rparr>, db)
                         else
                           (let c' = c\<lparr>enrolledStudents := enrolledStudents c @ newStudents\<rparr>
                            in (Json200
                                  \<lparr>enroll_message = show_nat (length newStudents)
                                      @ '' students enrolled successfully'',
                                   enroll_course = c', newlyEnrolled = Some newStudents\<rparr>,
                                save_course db c'))))))"

section \<open>Notions used to state the properties, and sample data\<close>

text \<open>A record whose status is \<open>late\<close> or \<open>excused\<close>, rewritten as \<open>absent\<close>.\<close>

definition as_absent :: "attendance \<Rightarrow> attendance" where
  "as_absent r =
     (if att_status r = ''late'' \<or> att_status r = ''excused''
      then r\<lparr>att_status := ''absent''\<rparr> else r)"

definition count_status :: "string \<Rightarrow> attendance list \<Rightarrow> nat" where
  "count_status s rs = length (filter (\<lambda>r. att_status r = s) rs)"

text \<open>
  A small school: student \<open>s1\<close> of account \<open>u1\<close> with parent \<open>u2\<close>, student \<open>s2\<close>
  without a parent reference, student \<open>s3\<close>; course \<open>c1\<close> of the teacher profile
  \<open>t1\<close> (account \<open>u5\<close>) with room for two; three records of \<open>s1\<close> and two of \<open>s2\<close>.
\<close>

definition sample_students :: "student_doc list" where
  "sample_students =
     [\<lparr>student_id = ''s1'', student_user = ''u1'', student_parent = Some ''u2'',
       student_class = ''k1'', student_section = ''a''\<rparr>,
      \<lparr>student_id = ''s2'', student_user = ''u3'', student_parent = None,
       student_class = ''k1'', student_section = ''a''\<rparr>,
      \<lparr>student_id = ''s3'', student_user = ''u4'', student_parent = None,
       student_class = ''k1'', student_section = ''b''\<rparr>]"

definition sample_attendance :: "nat \<Rightarrow> objectId \<Rightarrow> int \<Rightarrow> string \<Rightarrow> attendance" where
  "sample_attendance i s d st =
     \<lparr>attendance_id = i, att_student = s, att_course = ''c1'', att_date = d,
      att_status = st, att_method = ''manual'', att_markedBy = ''u5''\<rparr>"

definition sample_db :: database where
  "sample_db =
     \<lparr>students = sample_students,
      courses = [\<lparr>course_id = ''c1'', instructor = ''t1'',
                  enrolledStudents = [''s1''], maxEnrollment = Some 2\<rparr>],
      teachers = [\<lparr>teacher_id = ''t1'', teacher_user = ''u5''\<rparr>],
      attendances =
        [sample_attendance 0 ''s1'' 0 ''present'',
         sample_attendance 1 ''s1'' 86400000 ''late'',
         sample_attendance 2 ''s1'' 172800000 ''excused'',
         sample_attendance 3 ''s2'' 0 ''present'',
         sample_attendance 4 ''s2'' 86400000 ''absent''],
      grades =
        [\<lparr>grade_id = ''g1'', grade_student = ''s1'', grade_course = ''c1'',
          pointsEarned = Some (Num 40), maxPoints = Some (Num 50), percentage = Some (Num 80),
          letterGrade = Some ''A-'', feedback = None\<rparr>,
         \<lparr>grade_id = ''g2'', grade_student = ''s1'', grade_course = ''c1'',
          pointsEarned = Some (Num 9), maxPoints = Some (Num 9), percentage = Some (Num 100),
          letterGrade = Some ''A+'', feedback = None\<rparr>]\<rparr>"

definition no_bounds :: student_attendance_query where
  "no_bounds = \<lparr>query_startDate = None, query_endDate = None, query_course = None\<rparr>"

text \<open>
  Grade \<open>g1\<close> (40 of 50 points) after an update of \<open>pointsEarned\<close> alone to 45, and
  after an update of \<open>maxPoints\<close> alone to 80. Grade \<open>g2\<close> (9 of 9 points) after an
  update of \<open>pointsEarned\<close> alone to 8.1: the quotient times 100 is the double
  89.99999999999999, below 90.
\<close>

definition sample_admin :: user where
  "sample_admin = \<lparr>user_id = ''u0'', role = ''admin''\<rparr>"

definition g1_before :: grade where
  "g1_before =
     \<lparr>grade_id = ''g1'', grade_student = ''s1'', grade_course = ''c1'',
      pointsEarned = Some (Num 40), maxPoints = Some (Num 50), percentage = Some (Num 80),
      letterGrade = Some ''A-'', feedback = None\<rparr>"

definition g1_after_points :: grade where
  "g1_after_points =
     \<lparr>grade_id = ''g1'', grade_student = ''s1'', grade_course = ''c1'',
      pointsEarned = Some (Num 45), maxPoints = Some (Num 50), percentage = Some (Num 90),
      letterGrade = Some ''A+'', feedback = None\<rparr>"

definition g1_after_max :: grade where
  "g1_after_max =
     \<lparr>grade_id = ''g1'', grade_student = ''s1'', grade_course = ''c1'',
      pointsEarned = Some (Num 40), maxPoints = Some (Num 80), percentage = Some (Num 50),
      letterGrade = Some ''C-'', feedback = None\<rparr>"

definition g2_before :: grade where
  "g2_before =
     \<lparr>grade_id = ''g2'', grade_student = ''s1'', grade_course = ''c1'',
      pointsEarned = Some (Num 9), maxPoints = Some (Num 9), percentage = Some (Num 100),
      letterGrade = Some ''A+'', feedback = None\<rparr>"

definition g2_after_points :: grade where
  "g2_after_points =
     \<lparr>grade_id = ''g2'', grade_student = ''s1'', grade_course = ''c1'',
      pointsEarned = Some (Num (81 / 10)), maxPoints = Some (Num 9),
      percentage = Some (Num (6333186975989759 / 70368744177664)),
      letterGrade = Some ''A'', feedback = None\<rparr>"

definition only_points :: "number \<Rightarrow> grade_body" where
  "only_points x = \<lparr>body_pointsEarned = Some x, body_maxPoints = None, body_feedback = None\<rparr>"

definition only_max :: "number \<Rightarrow> grade_body" where
  "only_max y = \<lparr>body_pointsEarned = None, body_maxPoints = Some y, body_feedback = None\<rparr>"

text \<open>
  Two zones: UTC, and a zone at a fixed offset from UTC; \<open>karachi\<close> is five hours ahead.
\<close>

definition utc :: zone where
  "utc = \<lparr>startOfDay = (\<lambda>t. (t div 86400000) * 86400000),
           startOfNextDay = (\<lambda>t. (t div 86400000) * 86400000 + 86400000)\<rparr>"

definition offset_zone :: "int \<Rightarrow> zone" where
  "offset_zone off =
     \<lparr>startOfDay = (\<lambda>t. ((t + off) div 86400000) * 86400000 - off),
      startOfNextDay = (\<lambda>t. ((t + off) div 86400000) * 86400000 - off + 86400000)\<rparr>"

definition karachi :: zone where
  "karachi = offset_zone 18000000"

text \<open>
  An element of a batch fails the checks of lines 476 to 492 when a required field is
  missing or the student is not enrolled in the course. The store accepts it when its
  status and its method, \<open>manual\<close> by default, belong to the enumerations of the schema.
  \<open>record_bounds\<close> are the bounds of the day of its date, \<open>on_day\<close> holds of a stored
  record of its student and course within these bounds, and \<open>day_holds_date\<close> says that
  its date lies within them, as the date of every local day does.
\<close>

definition fails_check :: "database \<Rightarrow> mark_record \<Rightarrow> bool" where
  "fails_check db r =
     (missing_required r \<or> \<not> enrolled_in db (the (rec_student r)) (the (rec_course r)))"

definition store_accepts :: "mark_record \<Rightarrow> bool" where
  "store_accepts r =
     (the (rec_status r) \<in> set status_enum
      \<and> (case rec_method r of None \<Rightarrow> ''manual'' | Some m \<Rightarrow> m) \<in> set method_enum)"

definition record_bounds :: "zone \<Rightarrow> mark_record \<Rightarrow> (int \<times> int) option" where
  "record_bounds tz r = day_bounds tz (the (rec_date r))"

definition on_day :: "zone \<Rightarrow> mark_record \<Rightarrow> attendance \<Rightarrow> bool" where
  "on_day tz r a =
     (case record_bounds tz r of
        None \<Rightarrow> False
      | Some b \<Rightarrow> same_day_record (the (rec_student r)) (the (rec_course r)) b a)"

definition day_holds_date :: "zone \<Rightarrow> mark_record \<Rightarrow> bool" where
  "day_holds_date tz r =
     (case (time_value (the (rec_date r)), record_bounds tz r) of
        (Some t, Some b) \<Rightarrow> fst b \<le> t \<and> t < snd b
      | _ \<Rightarrow> False)"

text \<open>
  The unique index refuses an element when the store holds a record of its student and
  course at the very instant of its date. A turn of the loop fails on an element that
  fails the checks, on one whose day has a bound that is no date, and on one for which
  the store holds no record of its day and that the store does not accept or the index
  refuses.
\<close>

definition duplicate_key :: "database \<Rightarrow> mark_record \<Rightarrow> bool" where
  "duplicate_key st r =
     list_ex (\<lambda>a. att_student a = the (rec_student r)
                  \<and> att_date a = the (time_value (the (rec_date r)))
                  \<and> att_course a = the (rec_course r)) (attendances st)"

definition turn_fails :: "zone \<Rightarrow> database \<Rightarrow> mark_record \<Rightarrow> bool" where
  "turn_fails tz st r =
     (fails_check st r \<or> record_bounds tz r = None
      \<or> (\<not> list_ex (on_day tz r) (attendances st)
          \<and> (\<not> store_accepts r \<or> duplicate_key st r)))"

definition sample_teacher :: user where
  "sample_teacher = \<lparr>user_id = ''u5'', role = ''teacher''\<rparr>"

definition sample_mark :: "string \<Rightarrow> int \<Rightarrow> string \<Rightarrow> mark_record" where
  "sample_mark s d st =
     \<lparr>rec_student = Some s, rec_course = Some ''c1'', rec_date = Some (TextDate d),
      rec_status = Some st, rec_method = None\<rparr>"

text \<open>
  What one turn of the loop, and what a whole batch, add to the results and to the
  errors. Every element goes to exactly one of the two lists: to the errors when its
  turn fails, to the results otherwise. In a batch, an element goes to the errors when
  it fails the checks, when a bound of its day is no date, and when the store does not
  accept it and holds no record of its day; an element that passes the checks, that the
  store accepts and whose day holds its date goes to the results. Only an element that
  the store accepts is reported as \<open>marked\<close>. The courses of the store are not touched
  and no record leaves the store.
\<close>

definition step_ok ::
  "zone \<Rightarrow> database \<Rightarrow> mark_record \<Rightarrow> mark_result list \<Rightarrow> mark_error list \<Rightarrow> database
     \<Rightarrow> bool" where
  "step_ok tz st r ra ea st' =
     (courses st' = courses st \<and> set (attendances st) \<subseteq> set (attendances st')
      \<and> length ra + length ea = 1
      \<and> (\<forall>x\<in>set ra. result_record x = r \<and> (result_status x = ''marked'' \<longrightarrow> store_accepts r))
      \<and> (\<forall>x\<in>set ea. error_record x = r)
      \<and> (turn_fails tz st r \<longrightarrow> ra = [])
      \<and> (\<not> turn_fails tz st r \<longrightarrow> ea = []))"

definition batch_ok ::
  "zone \<Rightarrow> database \<Rightarrow> mark_record list \<Rightarrow> mark_result list \<Rightarrow> mark_error list \<Rightarrow> database
     \<Rightarrow> bool" where
  "batch_ok tz st recs ra ea st' =
     (courses st' = courses st \<and> set (attendances st) \<subseteq> set (attendances st')
      \<and> length ra + length ea = length recs
      \<and> (\<forall>x\<in>set ra. result_record x \<in> set recs
             \<and> (result_status x = ''marked'' \<longrightarrow> store_accepts (result_record x)))
      \<and> (\<forall>x\<in>set ea. error_record x \<in> set recs)
      \<and> (\<forall>r\<in>set recs. fails_check st r \<longrightarrow> r \<in> error_record ` set ea)
      \<and> (\<forall>r\<in>set recs. record_bounds tz r = None \<longrightarrow> r \<in> error_record ` set ea)
      \<and> (\<forall>r\<in>set recs. \<not> store_accepts r \<and> \<not> list_ex (on_day tz r) (attendances st') \<longrightarrow>
             r \<in> error_record ` set ea)
      \<and> (\<forall>r\<in>set recs. \<not> fails_check st r \<and> store_accepts r \<and> day_holds_date tz r \<longrightarrow>
             r \<in> result_record ` set ra)
      \<and> (\<forall>r\<in>set recs. r \<in> error_record ` set ea \<or> r \<in> result_record ` set ra))"

text \<open>
  A batch of seven: an element without status, an element whose date is the number 0, an
  element for \<open>s2\<close>, who is not enrolled in \<open>c1\<close>, an element whose date is out of
  range, an element whose date cannot be read, an element with a status outside the
  schema, and an element that can be marked.
\<close>

definition without_status :: mark_record where
  "without_status =
     \<lparr>rec_student = Some ''s1'', rec_course = Some ''c1'', rec_date = Some (TextDate 259200000),
      rec_status = None, rec_method = None\<rparr>"

definition date_zero :: mark_record where
  "date_zero =
     \<lparr>rec_student = Some ''s1'', rec_course = Some ''c1'', rec_date = Some (NumericDate 0),
      rec_status = Some ''present'', rec_method = None\<rparr>"

definition out_of_range :: mark_record where
  "out_of_range =
     \<lparr>rec_student = Some ''s1'', rec_course = Some ''c1'',
      rec_date = Some (NumericDate 9000000000000000),
      rec_status = Some ''present'', rec_method = None\<rparr>"

definition unreadable_date :: mark_record where
  "unreadable_date =
     \<lparr>rec_student = Some ''s1'', rec_course = Some ''c1'', rec_date = Some UnreadableText,
      rec_status = Some ''present'', rec_method = None\<rparr>"

definition sample_batch :: "mark_record list" where
  "sample_batch =
     [without_status, date_zero, sample_mark ''s2'' 259200000 ''present'', out_of_range,
      unreadable_date, sample_mark ''s1'' 432000000 ''asleep'',
      sample_mark ''s1'' 259200000 ''present'']"

definition sample_batch_data :: mark_data where
  "sample_batch_data =
     \<lparr>results = [\<lparr>result_record = sample_mark ''s1'' 259200000 ''present'',
                   result_status = ''marked'', attendanceId = 5\<rparr>],
      errors = [\<lparr>error_record = without_status,
                  error_message = ''Missing required fields: student, course, date, status''\<rparr>,
                \<lparr>error_record = date_zero,
                  error_message = ''Missing required fields: student, course, date, status''\<rparr>,
                \<lparr>error_record = sample_mark ''s2'' 259200000 ''present'',
                  error_message = ''Student is not enrolled in this course''\<rparr>,
                \<lparr>error_record = out_of_range, error_message = ''Cast to date failed''\<rparr>,
                \<lparr>error_record = unreadable_date, error_message = ''Cast to date failed''\<rparr>,
                \<lparr>error_record = sample_mark ''s1'' 432000000 ''asleep'',
                  error_message = ''Attendance validation failed''\<rparr>],
      processed = 1, failed = 6\<rparr>"

definition sample_batch_store :: database where
  "sample_batch_store =
     sample_db\<lparr>attendances := attendances sample_db
                  @ [\<lparr>attendance_id = 5, att_student = ''s1'', att_course = ''c1'',
                       att_date = 259200000, att_status = ''present'',
                       att_method = ''manual'', att_markedBy = ''u5''\<rparr>]\<rparr>"

text \<open>
  For the summary of a class: the identifiers of its students, the records in range of
  these students, those of one student, the rate of a list of records, and the students
  that have a record.
\<close>

definition class_ids :: "database \<Rightarrow> objectId \<Rightarrow> class_attendance_query \<Rightarrow> objectId list" where
  "class_ids db classId q = map student_id (class_students db classId (class_section q))"

definition class_recs :: "database \<Rightarrow> objectId \<Rightarrow> class_attendance_query \<Rightarrow> attendance list" where
  "class_recs db classId q =
     class_records db (class_ids db classId q) (class_startDate q) (class_endDate q)"

definition records_of :: "attendance list \<Rightarrow> objectId \<Rightarrow> attendance list" where
  "records_of rs sid = filter (\<lambda>r. att_student r = sid) rs"

definition rate_of :: "attendance list \<Rightarrow> int" where
  "rate_of rs =
     (if rs = [] then 0
      else Math_round
             (double_times
                (double_divide (real (count_status ''present'' rs)) (real (length rs))) 100))"

definition with_records :: "attendance list \<Rightarrow> objectId list \<Rightarrow> objectId list" where
  "with_records rs ids = filter (\<lambda>sid. records_of rs sid \<noteq> []) ids"

definition grouped_entry :: "student_doc list \<Rightarrow> attendance list \<Rightarrow> objectId \<Rightarrow> student_entry" where
  "grouped_entry studs rs sid =
     \<lparr>entry_student = find (\<lambda>s. student_id s = sid) studs,
      entry_records = records_of rs sid,
      entry_statistics =
        \<lparr>stat_total = length (records_of rs sid),
         stat_present = count_status ''present'' (records_of rs sid),
         stat_absent = length (filter (\<lambda>r. att_status r \<noteq> ''present'') (records_of rs sid)),
         stat_rate = 0\<rparr>\<rparr>"

text \<open>
  A class of three: \<open>s1\<close> was present twice, \<open>s2\<close> was present once and absent once,
  \<open>s3\<close> has no record.
\<close>

definition class_db :: database where
  "class_db =
     \<lparr>students = sample_students, courses = [], teachers = [],
      attendances =
        [sample_attendance 0 ''s1'' 0 ''present'',
         sample_attendance 1 ''s2'' 0 ''present'',
         sample_attendance 2 ''s1'' 86400000 ''present'',
         sample_attendance 3 ''s2'' 86400000 ''absent''],
      grades = []\<rparr>"

definition whole_class :: class_attendance_query where
  "whole_class = \<lparr>class_startDate = None, class_endDate = None, class_section = None\<rparr>"

text \<open>
  Forty records of \<open>s1\<close>, one a day, the first 23 \<open>present\<close> and the other 17 \<open>absent\<close>:
  the quotient 23 / 40 is the double 0.575 (just below the exact value) and its product
  with 100 the double 57.49999999999999.
\<close>

definition forty_records :: "attendance list" where
  "forty_records =
     map (\<lambda>i. sample_attendance i ''s1'' (int i * 86400000)
                 (if i < 23 then ''present'' else ''absent'')) [0..<40]"

definition forty_db :: database where
  "forty_db =
     \<lparr>students = sample_students, courses = [], teachers = [],
      attendances = forty_records, grades = []\<rparr>"

section \<open>The letter-grade table\<close>

lemma createGrade_letter_table: "createGrade_letter p = letterGrade_spec p"
  by (simp add: createGrade_letter_def letterGrade_spec_def threshold_table_def)

lemma updateGrade_letter_table: "updateGrade_letter p = letterGrade_spec p"
  by (simp add: updateGrade_letter_def letterGrade_spec_def threshold_table_def)

lemma letterGrade_spec_bands:
  "(letterGrade_spec p = ''A+'') = (90 \<le> p)"
  "(letterGrade_spec p = ''A'') = (85 \<le> p \<and> p < 90)"
  "(letterGrade_spec p = ''A-'') = (80 \<le> p \<and> p < 85)"
  "(letterGrade_spec p = ''B+'') = (75 \<le> p \<and> p < 80)"
  "(letterGrade_spec p = ''B'') = (70 \<le> p \<and> p < 75)"
  "(letterGrade_spec p = ''B-'') = (65 \<le> p \<and> p < 70)"
  "(letterGrade_spec p = ''C+'') = (60 \<le> p \<and> p < 65)"
  "(letterGrade_spec p = ''C'') = (55 \<le> p \<and> p < 60)"
  "(letterGrade_spec p = ''C-'') = (50 \<le> p \<and> p < 55)"
  "(letterGrade_spec p = ''D'') = (45 \<le> p \<and> p < 50)"
  "(letterGrade_spec p = ''F'') = (p < 45)"
  by (auto simp add: letterGrade_spec_def threshold_table_def)

text \<open>
  C2. For every percentage, the derivation of \<open>POST /grades\<close> and the derivation of
  \<open>PUT /grades/:id\<close> both return the entry of the threshold table, whose bounds are
  inclusive lower bounds: each letter is returned exactly on its band, \<open>A+\<close> from 90 up,
  \<open>A\<close> on [85, 90), and so on down to \<open>D\<close> on [45, 50) and \<open>F\<close> below 45. At 90 the
  letter is \<open>A+\<close> and at 89.99 it is \<open>A\<close>.
\<close>

theorem letterGrade_matches_table:
  "createGrade_letter p = letterGrade_spec p \<and> updateGrade_letter p = letterGrade_spec p
   \<and> (createGrade_letter p = ''A+'') = (90 \<le> p)
   \<and> (createGrade_letter p = ''A'') = (85 \<le> p \<and> p < 90)
   \<and> (createGrade_letter p = ''A-'') = (80 \<le> p \<and> p < 85)
   \<and> (createGrade_letter p = ''B+'') = (75 \<le> p \<and> p < 80)
   \<and> (createGrade_letter p = ''B'') = (70 \<le> p \<and> p < 75)
   \<and> (createGrade_letter p = ''B-'') = (65 \<le> p \<and> p < 70)
   \<and> (createGrade_letter p = ''C+'') = (60 \<le> p \<and> p < 65)
   \<and> (createGrade_letter p = ''C'') = (55 \<le> p \<and> p < 60)
   \<and> (createGrade_letter p = ''C-'') = (50 \<le> p \<and> p < 55)
   \<and> (createGrade_letter p = ''D'') = (45 \<le> p \<and> p < 50)
   \<and> (createGrade_letter p = ''F'') = (p < 45)
   \<and> createGrade_letter 90 = ''A+'' \<and> createGrade_letter (8999 / 100) = ''A''
   \<and> updateGrade_letter 90 = ''A+'' \<and> updateGrade_letter (8999 / 100) = ''A''"
proof -
  have ex: "letterGrade_spec 90 = ''A+''" "letterGrade_spec (8999 / 100) = ''A''"
    by (simp_all add: letterGrade_spec_def threshold_table_def)
  show ?thesis
    unfolding createGrade_letter_table updateGrade_letter_table
    using letterGrade_spec_bands [of p] ex by simp
qed

section \<open>Attendance of one student: the statistics and the gate\<close>

lemma sample_rates:
  "Math_round (double_times (double_divide 1 3) 100) = 33"
  "Math_round (double_times (double_divide 1 2) 100) = 50"
  "Math_round (double_times (double_divide 23 40) 100) = 57"
  "Math_round (23 / 40 * 100) = 58"
  by code_simp+

lemma getStudentAttendance_ok:
  assumes "find (\<lambda>s. student_id s = studentId) (students db) = Some student"
      and "\<not> attendance_refused caller student"
  shows "getStudentAttendance db caller studentId q =
           Json200 (student_statistics (filter (student_query_matches studentId q) (attendances db)))"
  using assms by (simp add: getStudentAttendance_def)

text \<open>
  C9, as amended. For every query of the attendance of a student that exists and that the
  gate lets through, the reply is a success whose statistics count the records matching
  the student, the course and the bounds on the date: \<open>total\<close> is their number,
  \<open>present\<close> the number of those with status \<open>present\<close>, and \<open>attendanceRate\<close> is
  \<open>Math.round\<close> of the double \<open>(present / total) * 100\<close>, the quotient and the product
  each rounded to a double, or exactly 0 when there is no record.
\<close>

theorem student_attendance_rate:
  assumes "find (\<lambda>s. student_id s = studentId) (students db) = Some student"
      and "\<not> attendance_refused caller student"
  shows "\<exists>st. getStudentAttendance db caller studentId q = Json200 st
           \<and> total st = length (filter (student_query_matches studentId q) (attendances db))
           \<and> present st = count_status ''present''
                              (filter (student_query_matches studentId q) (attendances db))
           \<and> attendanceRate st =
                (if total st = 0 then 0
                 else Math_round
                        (double_times (double_divide (real (present st)) (real (total st))) 100))"
  using getStudentAttendance_ok [OF assms, of q]
  by (simp add: student_statistics_def Let_def count_status_def del: filter_filter)

lemma sample_find_s1:
  "find (\<lambda>s. student_id s = ''s1'') (students sample_db) = Some (hd sample_students)"
  by (simp add: sample_db_def sample_students_def)

lemma sample_s1_own: "\<not> attendance_refused \<lparr>user_id = ''u1'', role = ''student''\<rparr> (hd sample_students)"
  by (simp add: attendance_refused_def sample_students_def)

lemma sample_s1_records:
  "filter (student_query_matches ''s1'' no_bounds) (attendances sample_db) =
     [sample_attendance 0 ''s1'' 0 ''present'', sample_attendance 1 ''s1'' 86400000 ''late'',
      sample_attendance 2 ''s1'' 172800000 ''excused'']"
  by (simp add: sample_db_def student_query_matches_def no_bounds_def truthy_def
      date_in_range_def sample_attendance_def)

theorem student_attendance_rate_witness:
  "find (\<lambda>s. student_id s = ''s1'') (students sample_db) = Some (hd sample_students)
   \<and> \<not> attendance_refused \<lparr>user_id = ''u1'', role = ''student''\<rparr> (hd sample_students)
   \<and> (\<exists>st. getStudentAttendance sample_db \<lparr>user_id = ''u1'', role = ''student''\<rparr> ''s1'' no_bounds
               = Json200 st
            \<and> total st = 3 \<and> present st = 1 \<and> attendanceRate st = 33)"
proof -
  have c: "count_status ''present'' (filter (student_query_matches ''s1'' no_bounds) (attendances sample_db)) = 1"
    unfolding sample_s1_records by (simp add: count_status_def sample_attendance_def)
  have l: "length (filter (student_query_matches ''s1'' no_bounds) (attendances sample_db)) = 3"
    unfolding sample_s1_records by simp
  have r: "Math_round (double_times (double_divide (real 1) (real 3)) 100) = 33"
    using sample_rates(1) by simp
  from student_attendance_rate [OF sample_find_s1 sample_s1_own, of no_bounds]
  obtain st where
    "getStudentAttendance sample_db \<lparr>user_id = ''u1'', role = ''student''\<rparr> ''s1'' no_bounds
       = Json200 st"
    "total st = 3" "present st = 1"
    "attendanceRate st =
       (if total st = 0 then 0
        else Math_round (double_times (double_divide (real (present st)) (real (total st))) 100))"
    unfolding c l by blast
  then show ?thesis
    using sample_find_s1 sample_s1_own r by auto
qed

lemma forty_counts:
  "length forty_records = 40"
  "length (filter (\<lambda>r. att_status r = ''present'') forty_records) = 23"
  "filter (student_query_matches ''s1'' no_bounds) forty_records = forty_records"
  by code_simp+

text \<open>
  C9, as stated with the rounding of the exact quotient, fails: of 40 records of \<open>s1\<close>,
  23 are \<open>present\<close>. The exact rate is 57.5, which rounds to 58; the handler computes the
  double 57.49999999999999 and replies 57.
\<close>

theorem exact_rate_counterexample:
  "getStudentAttendance forty_db sample_admin ''s1'' no_bounds
     = Json200 \<lparr>total = 40, present = 23, absent = 17, attendanceRate = 57\<rparr>
   \<and> Math_round (23 / 40 * 100) = 58"
proof (rule conjI)
  show "getStudentAttendance forty_db sample_admin ''s1'' no_bounds
          = Json200 \<lparr>total = 40, present = 23, absent = 17, attendanceRate = 57\<rparr>"
    by (simp add: getStudentAttendance_def forty_db_def sample_students_def attendance_refused_def
        sample_admin_def student_statistics_def forty_counts sample_rates(3))
  show "Math_round (23 / 40 * 100) = 58"
    by (rule sample_rates(4))
qed

lemma status_as_absent [simp]:
  "(att_status (as_absent r) = ''present'') = (att_status r = ''present'')"
  by (simp add: as_absent_def)

lemma matches_as_absent [simp]:
  "student_query_matches sid q (as_absent r) = student_query_matches sid q r"
  by (simp add: student_query_matches_def as_absent_def)

lemma statistics_as_absent:
  "student_statistics (map as_absent rs) = student_statistics rs"
  by (simp add: student_statistics_def filter_map comp_def)

lemma count_non_present:
  "int (length rs) - int (length (filter (\<lambda>r. att_status r = ''present'') rs))
     = int (length (filter (\<lambda>r. att_status r \<noteq> ''present'') rs))"
  using sum_length_filter_compl [of "\<lambda>r. att_status r = ''present''" rs] by simp

lemma count_by_status:
  "list_all (\<lambda>r. att_status r \<in> set status_enum) rs \<Longrightarrow>
     length (filter (\<lambda>r. att_status r \<noteq> ''present'') rs)
       = count_status ''absent'' rs + count_status ''late'' rs + count_status ''excused'' rs"
  by (induction rs) (auto simp add: count_status_def status_enum_def)

text \<open>
  C10. In the statistics of the same reply, \<open>absent\<close> is \<open>total\<close> minus \<open>present\<close>: it
  is the number of matching records whose status is not \<open>present\<close>, which for statuses
  of the schema is the number of \<open>absent\<close>, \<open>late\<close> and \<open>excused\<close> records together.
  Rewriting every \<open>late\<close> or \<open>excused\<close> record of the store as \<open>absent\<close> leaves the
  whole reply, the rate included, as it is: only \<open>present\<close> counts in the numerator.
\<close>

theorem absent_holds_late_and_excused:
  assumes "find (\<lambda>s. student_id s = studentId) (students db) = Some student"
      and "\<not> attendance_refused caller student"
  shows "\<exists>st. getStudentAttendance db caller studentId q = Json200 st
           \<and> absent st = int (total st) - int (present st)
           \<and> present st = count_status ''present''
                              (filter (student_query_matches studentId q) (attendances db))
           \<and> absent st = int (length (filter (\<lambda>r. att_status r \<noteq> ''present'')
                              (filter (student_query_matches studentId q) (attendances db))))
           \<and> (list_all (\<lambda>r. att_status r \<in> set status_enum)
                 (filter (student_query_matches studentId q) (attendances db)) \<longrightarrow>
               absent st = int (count_status ''absent''
                                  (filter (student_query_matches studentId q) (attendances db))
                                + count_status ''late''
                                  (filter (student_query_matches studentId q) (attendances db))
                                + count_status ''excused''
                                  (filter (student_query_matches studentId q) (attendances db))))
           \<and> getStudentAttendance (db\<lparr>attendances := map as_absent (attendances db)\<rparr>)
                 caller studentId q = Json200 st"
proof -
  let ?rs = "filter (student_query_matches studentId q) (attendances db)"
  let ?st = "student_statistics ?rs"
  have a: "absent ?st = int (total ?st) - int (present ?st)"
    and p: "present ?st = count_status ''present'' ?rs"
    by (simp_all add: student_statistics_def Let_def count_status_def del: filter_filter)
  have n: "absent ?st = int (length (filter (\<lambda>r. att_status r \<noteq> ''present'') ?rs))"
    using count_non_present [of ?rs]
    by (simp add: student_statistics_def Let_def del: filter_filter)
  have e: "list_all (\<lambda>r. att_status r \<in> set status_enum) ?rs \<longrightarrow>
             absent ?st = int (count_status ''absent'' ?rs + count_status ''late'' ?rs
                               + count_status ''excused'' ?rs)"
    using n count_by_status [of ?rs] by simp
  have f: "filter (student_query_matches studentId q) (map as_absent (attendances db))
             = map as_absent ?rs"
    by (simp add: filter_map comp_def)
  have "find (\<lambda>s. student_id s = studentId) (students (db\<lparr>attendances := map as_absent (attendances db)\<rparr>))
          = Some student"
    using assms(1) by simp
  from getStudentAttendance_ok [OF this assms(2), of q]
  have m: "getStudentAttendance (db\<lparr>attendances := map as_absent (attendances db)\<rparr>)
             caller studentId q = Json200 ?st"
    by (simp add: f statistics_as_absent)
  show ?thesis
    using getStudentAttendance_ok [OF assms, of q] a p n e m by blast
qed

theorem absent_holds_late_and_excused_witness:
  "find (\<lambda>s. student_id s = ''s1'') (students sample_db) = Some (hd sample_students)
   \<and> \<not> attendance_refused \<lparr>user_id = ''u2'', role = ''parent''\<rparr> (hd sample_students)
   \<and> (\<exists>st. getStudentAttendance sample_db \<lparr>user_id = ''u2'', role = ''parent''\<rparr> ''s1'' no_bounds
               = Json200 st
            \<and> present st = 1 \<and> absent st = 2
            \<and> getStudentAttendance (sample_db\<lparr>attendances := map as_absent (attendances sample_db)\<rparr>)
                 \<lparr>user_id = ''u2'', role = ''parent''\<rparr> ''s1'' no_bounds = Json200 st)"
proof -
  have own: "\<not> attendance_refused \<lparr>user_id = ''u2'', role = ''parent''\<rparr> (hd sample_students)"
    by (simp add: attendance_refused_def sample_students_def)
  have c: "count_status ''present'' (filter (student_query_matches ''s1'' no_bounds) (attendances sample_db)) = 1"
    unfolding sample_s1_records by (simp add: count_status_def sample_attendance_def)
  have n: "length (filter (\<lambda>r. att_status r \<noteq> ''present'')
             (filter (student_query_matches ''s1'' no_bounds) (attendances sample_db))) = 2"
    unfolding sample_s1_records by (simp add: sample_attendance_def)
  from absent_holds_late_and_excused [OF sample_find_s1 own, of no_bounds]
  obtain st where
    "getStudentAttendance sample_db \<lparr>user_id = ''u2'', role = ''parent''\<rparr> ''s1'' no_bounds
       = Json200 st"
    "present st = 1" "absent st = 2"
    "getStudentAttendance (sample_db\<lparr>attendances := map as_absent (attendances sample_db)\<rparr>)
       \<lparr>user_id = ''u2'', role = ''parent''\<rparr> ''s1'' no_bounds = Json200 st"
    unfolding c n by auto
  then show ?thesis
    using sample_find_s1 own by auto
qed

text \<open>
  C1. The gate of \<open>GET /attendance/student/:studentId\<close> at three callers that own nothing.
  Account \<open>u9\<close> has no teacher profile, is the parent of nobody and is not student
  \<open>s1\<close>. As a teacher it is served the statistics of \<open>s1\<close>; as a parent it is served
  those of \<open>s2\<close>, who has no parent reference; under a role the gate does not name it is
  served those of \<open>s1\<close>. None of the three is answered 403.
\<close>

theorem attendance_gate_passes_unrelated_teacher:
  "find (\<lambda>t. teacher_user t = ''u9'') (teachers sample_db) = None
   \<and> getStudentAttendance sample_db \<lparr>user_id = ''u9'', role = ''teacher''\<rparr> ''s1'' no_bounds
       = Json200 \<lparr>total = 3, present = 1, absent = 2, attendanceRate = 33\<rparr>
   \<and> getStudentAttendance sample_db \<lparr>user_id = ''u9'', role = ''parent''\<rparr> ''s2'' no_bounds
       = Json200 \<lparr>total = 2, present = 1, absent = 1, attendanceRate = 50\<rparr>
   \<and> getStudentAttendance sample_db \<lparr>user_id = ''u9'', role = ''driver''\<rparr> ''s1'' no_bounds
       = Json200 \<lparr>total = 3, present = 1, absent = 2, attendanceRate = 33\<rparr>"
  by (simp add: getStudentAttendance_def sample_db_def sample_students_def attendance_refused_def
      student_statistics_def student_query_matches_def no_bounds_def truthy_def date_in_range_def
      sample_attendance_def sample_rates)

section \<open>Updating a grade: the derived fields\<close>

lemma save_grade_valid: "save_grade db g = Some db' \<Longrightarrow> grade_valid g"
  by (simp add: save_grade_def split: if_splits)

lemma updateGrade_success:
  assumes "find (\<lambda>g. grade_id g = gradeId) (grades db) = Some g"
      and "updateGrade db caller gradeId body = (Json200 g', db')"
  shows "g' = apply_feedback body (recompute (apply_maxPoints body (apply_pointsEarned body g)))"
    and "grade_valid g'"
    and "save_grade db g' = Some db'"
  using assms
  by (auto simp add: updateGrade_def Let_def dest: save_grade_valid
      split: gate.splits if_splits option.splits)

lemma operands_after_body:
  "pointsEarned (apply_feedback body (recompute (apply_maxPoints body (apply_pointsEarned body g))))
     = (case body_pointsEarned body of None \<Rightarrow> pointsEarned g | Some x \<Rightarrow> Some x)"
  "maxPoints (apply_feedback body (recompute (apply_maxPoints body (apply_pointsEarned body g))))
     = (case body_maxPoints body of None \<Rightarrow> maxPoints g | Some x \<Rightarrow> Some x)"
  by (auto simp add: apply_feedback_def recompute_def apply_maxPoints_def apply_pointsEarned_def
      Let_def split: option.splits prod.splits)

lemma recompute_keeps_operands:
  "pointsEarned (apply_feedback body (recompute h)) = pointsEarned h"
  "maxPoints (apply_feedback body (recompute h)) = maxPoints h"
  by (auto simp add: apply_feedback_def recompute_def Let_def split: option.splits)

lemma derived_after_body:
  assumes "pointsEarned (apply_maxPoints body (apply_pointsEarned body g)) = Some pe"
      and "maxPoints (apply_maxPoints body (apply_pointsEarned body g)) = Some mp"
  shows "percentage (apply_feedback body (recompute (apply_maxPoints body (apply_pointsEarned body g))))
           = Some (js_times (js_divide pe mp) (Num 100))"
    and "letterGrade (apply_feedback body (recompute (apply_maxPoints body (apply_pointsEarned body g))))
           = Some (letter_of updateGrade_letter (js_times (js_divide pe mp) (Num 100)))"
  using assms
  by (auto simp add: apply_feedback_def recompute_def percentage_of_def Let_def
      split: option.splits)

lemma valid_operands:
  "grade_valid g \<Longrightarrow> \<exists>pe mp. pointsEarned g = Some pe \<and> maxPoints g = Some mp"
  by (auto simp add: grade_valid_def split: option.splits)

lemma saved_grade_found:
  assumes "find (\<lambda>g. grade_id g = gradeId) (grades db) = Some g"
      and "grade_id g' = grade_id g"
      and "save_grade db g' = Some db'"
  shows "find (\<lambda>g. grade_id g = gradeId) (grades db') = Some g'"
proof -
  have id: "grade_id g = gradeId" using assms(1) by (auto simp add: find_Some_iff)
  have "find (\<lambda>x. grade_id x = gradeId) (map (\<lambda>x. if grade_id x = grade_id g then g' else x) xs) = Some g'"
    if "find (\<lambda>g. grade_id g = gradeId) xs = Some g" for xs
    using that id assms(2) by (induction xs) (auto split: if_splits)
  then show ?thesis using assms by (auto simp add: save_grade_def id split: if_splits)
qed

lemma grade_id_after_body:
  "grade_id (apply_feedback body (recompute (apply_maxPoints body (apply_pointsEarned body g)))) = grade_id g"
  by (auto simp add: apply_feedback_def recompute_def apply_maxPoints_def apply_pointsEarned_def
      Let_def split: option.splits prod.splits)

text \<open>
  C5. For every accepted update of a stored grade: when the body gives \<open>pointsEarned\<close>
  and no \<open>maxPoints\<close>, the stored \<open>maxPoints\<close> is kept and the percentage is the new
  \<open>pointsEarned\<close> divided by the stored \<open>maxPoints\<close>, times 100; when the body gives
  \<open>maxPoints\<close> and no \<open>pointsEarned\<close>, the percentage is the stored \<open>pointsEarned\<close>
  divided by the new \<open>maxPoints\<close>, times 100. The division and the multiplication are
  those of doubles. The letter is the one of that percentage, and the grade found in the
  store afterwards is the one replied.
\<close>

theorem update_one_operand_uses_stored_other:
  assumes "find (\<lambda>g. grade_id g = gradeId) (grades db) = Some g"
      and "updateGrade db caller gradeId body = (Json200 g', db')"
  shows "(\<forall>x. body_pointsEarned body = Some x \<and> body_maxPoints body = None \<longrightarrow>
            (\<exists>m. maxPoints g = Some m \<and> maxPoints g' = Some m \<and> pointsEarned g' = Some x
                 \<and> percentage g' = Some (js_times (js_divide x m) (Num 100))
                 \<and> letterGrade g'
                     = Some (letter_of updateGrade_letter (js_times (js_divide x m) (Num 100)))))
       \<and> (\<forall>y. body_pointsEarned body = None \<and> body_maxPoints body = Some y \<longrightarrow>
            (\<exists>e. pointsEarned g = Some e \<and> pointsEarned g' = Some e \<and> maxPoints g' = Some y
                 \<and> percentage g' = Some (js_times (js_divide e y) (Num 100))
                 \<and> letterGrade g'
                     = Some (letter_of updateGrade_letter (js_times (js_divide e y) (Num 100)))))
       \<and> find (\<lambda>g. grade_id g = gradeId) (grades db') = Some g'"
proof -
  note s = updateGrade_success [OF assms]
  let ?h = "apply_maxPoints body (apply_pointsEarned body g)"
  from valid_operands [OF s(2)] obtain pe mp where
    v: "pointsEarned g' = Some pe" "maxPoints g' = Some mp" by blast
  have o: "pointsEarned ?h = Some pe" "maxPoints ?h = Some mp"
    using v s(1) by (simp_all add: recompute_keeps_operands)
  have d: "percentage g' = Some (js_times (js_divide pe mp) (Num 100))"
          "letterGrade g' = Some (letter_of updateGrade_letter (js_times (js_divide pe mp) (Num 100)))"
    using derived_after_body [OF o] s(1) by simp_all
  have f: "find (\<lambda>g. grade_id g = gradeId) (grades db') = Some g'"
    using saved_grade_found [OF assms(1) _ s(3)] s(1) grade_id_after_body by simp
  have w: "pointsEarned g' = (case body_pointsEarned body of None \<Rightarrow> pointsEarned g | Some x \<Rightarrow> Some x)"
          "maxPoints g' = (case body_maxPoints body of None \<Rightarrow> maxPoints g | Some x \<Rightarrow> Some x)"
    using s(1) operands_after_body by simp_all
  show ?thesis using v d f w by auto
qed

text \<open>
  C4, as amended. For every accepted update of a stored grade whose body gives exactly
  one of \<open>pointsEarned\<close> and \<open>maxPoints\<close>, the derived fields are not left as they were:
  the saved grade holds the operand of the body and the stored value of the other one,
  its percentage is the first divided by the second, times 100, in the arithmetic of
  doubles, and its letter is the one of that percentage.
\<close>

theorem partial_update_recomputes_derived:
  assumes "find (\<lambda>g. grade_id g = gradeId) (grades db) = Some g"
      and "updateGrade db caller gradeId body = (Json200 g', db')"
      and "(body_pointsEarned body = None) \<noteq> (body_maxPoints body = None)"
  shows "\<exists>pe mp. pointsEarned g' = Some pe \<and> maxPoints g' = Some mp
           \<and> pointsEarned g'
               = (case body_pointsEarned body of None \<Rightarrow> pointsEarned g | Some x \<Rightarrow> Some x)
           \<and> maxPoints g'
               = (case body_maxPoints body of None \<Rightarrow> maxPoints g | Some y \<Rightarrow> Some y)
           \<and> percentage g' = Some (js_times (js_divide pe mp) (Num 100))
           \<and> letterGrade g'
               = Some (letter_of updateGrade_letter (js_times (js_divide pe mp) (Num 100)))
           \<and> find (\<lambda>g. grade_id g = gradeId) (grades db') = Some g'"
proof -
  note s = updateGrade_success [OF assms(1,2)]
  let ?h = "apply_maxPoints body (apply_pointsEarned body g)"
  from valid_operands [OF s(2)] obtain pe mp where
    v: "pointsEarned g' = Some pe" "maxPoints g' = Some mp" by blast
  have o: "pointsEarned ?h = Some pe" "maxPoints ?h = Some mp"
    using v s(1) by (simp_all add: recompute_keeps_operands)
  have d: "percentage g' = Some (js_times (js_divide pe mp) (Num 100))"
          "letterGrade g' = Some (letter_of updateGrade_letter (js_times (js_divide pe mp) (Num 100)))"
    using derived_after_body [OF o] s(1) by simp_all
  have f: "find (\<lambda>g. grade_id g = gradeId) (grades db') = Some g'"
    using saved_grade_found [OF assms(1) _ s(3)] s(1) grade_id_after_body by simp
  have w: "pointsEarned g' = (case body_pointsEarned body of None \<Rightarrow> pointsEarned g | Some x \<Rightarrow> Some x)"
          "maxPoints g' = (case body_maxPoints body of None \<Rightarrow> maxPoints g | Some y \<Rightarrow> Some y)"
    using s(1) operands_after_body by simp_all
  show ?thesis using v d f w by blast
qed

lemma sample_find_g1:
  "find (\<lambda>g. grade_id g = ''g1'') (grades sample_db) = Some g1_before"
  by (simp add: sample_db_def g1_before_def)

lemma sample_find_g2:
  "find (\<lambda>g. grade_id g = ''g2'') (grades sample_db) = Some g2_before"
  by (simp add: sample_db_def g2_before_def)

lemma sample_numbers:
  "js_less (Num 45) (Num 0) = False"
  "js_lesseq (Num 0) (Num 45) = True"
  "js_lesseq (Num 1) (Num 50) = True"
  "js_lesseq (Num 80) (Num 0) = False"
  "js_lesseq (Num 0) (Num 40) = True"
  "js_lesseq (Num 1) (Num 80) = True"
  "js_less (Num (81 / 10)) (Num 0) = False"
  "js_lesseq (Num 0) (Num (81 / 10)) = True"
  "js_lesseq (Num 1) (Num 9) = True"
  by code_simp+

lemma sample_percentages:
  "js_times (js_divide (Num 45) (Num 50)) (Num 100) = Num 90"
  "letter_of updateGrade_letter (Num 90) = ''A+''"
  "js_times (js_divide (Num 40) (Num 80)) (Num 100) = Num 50"
  "letter_of updateGrade_letter (Num 50) = ''C-''"
  "js_times (js_divide (Num (81 / 10)) (Num 9)) (Num 100)
     = Num (6333186975989759 / 70368744177664)"
  "letter_of updateGrade_letter (Num (6333186975989759 / 70368744177664)) = ''A''"
  by code_simp+

lemma sample_update_points:
  "updateGrade sample_db sample_admin ''g1'' (only_points (Num 45))
     = (Json200 g1_after_points, sample_db\<lparr>grades := [g1_after_points, g2_before]\<rparr>)"
  by (simp add: updateGrade_def sample_db_def update_gate_def greater_than_def apply_feedback_def
      recompute_def apply_maxPoints_def apply_pointsEarned_def save_grade_def grade_valid_def
      percentage_of_def g1_after_points_def g2_before_def only_points_def sample_admin_def
      sample_numbers sample_percentages Let_def)

lemma sample_update_max:
  "updateGrade sample_db sample_admin ''g1'' (only_max (Num 80))
     = (Json200 g1_after_max, sample_db\<lparr>grades := [g1_after_max, g2_before]\<rparr>)"
  by (simp add: updateGrade_def sample_db_def update_gate_def greater_than_def apply_feedback_def
      recompute_def apply_maxPoints_def apply_pointsEarned_def save_grade_def grade_valid_def
      percentage_of_def g1_after_max_def g2_before_def only_max_def sample_admin_def
      sample_numbers sample_percentages Let_def)

lemma sample_update_tenths:
  "updateGrade sample_db sample_admin ''g2'' (only_points (Num (81 / 10)))
     = (Json200 g2_after_points, sample_db\<lparr>grades := [g1_before, g2_after_points]\<rparr>)"
  by (simp add: updateGrade_def sample_db_def update_gate_def greater_than_def apply_feedback_def
      recompute_def apply_maxPoints_def apply_pointsEarned_def save_grade_def grade_valid_def
      percentage_of_def g2_after_points_def g1_before_def only_points_def sample_admin_def
      sample_numbers sample_percentages Let_def)

theorem update_one_operand_uses_stored_other_witness:
  "find (\<lambda>g. grade_id g = ''g2'') (grades sample_db) = Some g2_before
   \<and> updateGrade sample_db sample_admin ''g2'' (only_points (Num (81 / 10)))
       = (Json200 g2_after_points, sample_db\<lparr>grades := [g1_before, g2_after_points]\<rparr>)
   \<and> maxPoints g2_before = Some (Num 9)
   \<and> percentage g2_after_points = Some (js_times (js_divide (Num (81 / 10)) (Num 9)) (Num 100))
   \<and> percentage g2_after_points = Some (Num (6333186975989759 / 70368744177664))
   \<and> letterGrade g2_after_points = Some ''A''"
proof -
  have b: "body_pointsEarned (only_points (Num (81 / 10))) = Some (Num (81 / 10))
           \<and> body_maxPoints (only_points (Num (81 / 10))) = None"
    by (simp add: only_points_def)
  have m: "maxPoints g2_before = Some (Num 9)" by (simp add: g2_before_def)
  from update_one_operand_uses_stored_other [OF sample_find_g2 sample_update_tenths] b
  have "\<exists>m. maxPoints g2_before = Some m
          \<and> percentage g2_after_points = Some (js_times (js_divide (Num (81 / 10)) m) (Num 100))
          \<and> letterGrade g2_after_points
              = Some (letter_of updateGrade_letter (js_times (js_divide (Num (81 / 10)) m) (Num 100)))"
    by blast
  then have "percentage g2_after_points
               = Some (js_times (js_divide (Num (81 / 10)) (Num 9)) (Num 100))
             \<and> letterGrade g2_after_points
               = Some (letter_of updateGrade_letter
                         (js_times (js_divide (Num (81 / 10)) (Num 9)) (Num 100)))"
    using m by auto
  then show ?thesis
    using sample_find_g2 sample_update_tenths m by (simp add: sample_percentages)
qed

theorem partial_update_recomputes_derived_witness:
  "find (\<lambda>g. grade_id g = ''g1'') (grades sample_db) = Some g1_before
   \<and> updateGrade sample_db sample_admin ''g1'' (only_max (Num 80))
       = (Json200 g1_after_max, sample_db\<lparr>grades := [g1_after_max, g2_before]\<rparr>)
   \<and> (body_pointsEarned (only_max (Num 80)) = None) \<noteq> (body_maxPoints (only_max (Num 80)) = None)
   \<and> pointsEarned g1_after_max = pointsEarned g1_before
   \<and> maxPoints g1_after_max = Some (Num 80)
   \<and> percentage g1_after_max = Some (js_times (js_divide (Num 40) (Num 80)) (Num 100))
   \<and> percentage g1_after_max = Some (Num 50)
   \<and> letterGrade g1_after_max = Some ''C-''"
proof -
  have b: "(body_pointsEarned (only_max (Num 80)) = None) \<noteq> (body_maxPoints (only_max (Num 80)) = None)"
    by (simp add: only_max_def)
  have o: "pointsEarned g1_after_max = Some (Num 40)" "maxPoints g1_after_max = Some (Num 80)"
    "pointsEarned g1_before = Some (Num 40)"
    by (simp_all add: g1_after_max_def g1_before_def)
  from partial_update_recomputes_derived [OF sample_find_g1 sample_update_max b]
  have "percentage g1_after_max = Some (js_times (js_divide (Num 40) (Num 80)) (Num 100))
        \<and> letterGrade g1_after_max
            = Some (letter_of updateGrade_letter (js_times (js_divide (Num 40) (Num 80)) (Num 100)))"
    unfolding o by auto
  then show ?thesis
    using sample_find_g1 sample_update_max b o by (simp add: sample_percentages)
qed

text \<open>
  C4, as stated, fails: grade \<open>g1\<close> holds 40 of 50 points, 80 percent, \<open>A-\<close>. An update
  that gives only \<open>pointsEarned = 45\<close> is accepted and saves 90 percent and \<open>A+\<close>; the
  derived fields did not wait for a \<open>maxPoints\<close>.
\<close>

theorem partial_update_stale_counterexample:
  "updateGrade sample_db sample_admin ''g1'' (only_points (Num 45))
     = (Json200 g1_after_points, sample_db\<lparr>grades := [g1_after_points, g2_before]\<rparr>)
   \<and> body_maxPoints (only_points (Num 45)) = None
   \<and> percentage g1_before = Some (Num 80) \<and> percentage g1_after_points = Some (Num 90)
   \<and> letterGrade g1_before = Some ''A-'' \<and> letterGrade g1_after_points = Some ''A+''
   \<and> percentage g1_after_points \<noteq> percentage g1_before
   \<and> letterGrade g1_after_points \<noteq> letterGrade g1_before"
  using sample_update_points
  by (simp add: only_points_def g1_before_def g1_after_points_def)

section \<open>Enrolling students: the capacity guard\<close>

lemma saved_course_found:
  assumes "find (\<lambda>c. course_id c = courseId) (courses db) = Some c"
      and "course_id c' = course_id c"
  shows "find (\<lambda>c. course_id c = courseId) (courses (save_course db c')) = Some c'"
proof -
  have id: "course_id c = courseId" using assms(1) by (auto simp add: find_Some_iff)
  have "find (\<lambda>x. course_id x = courseId) (map (\<lambda>x. if course_id x = course_id c' then c' else x) xs) = Some c'"
    if "find (\<lambda>c. course_id c = courseId) xs = Some c" for xs
    using that id assms(2) by (induction xs) (auto split: if_splits)
  then show ?thesis using assms by (simp add: save_course_def)
qed

lemma all_found:
  assumes "\<forall>s\<in>set studs. s \<in> student_id ` set (students db)"
  shows "filter (\<lambda>s. s \<notin> set (map student_id (filter (\<lambda>x. student_id x \<in> set studs) (students db)))) studs = []"
  using assms by (auto simp add: filter_empty_conv)

lemma enroll_over_capacity:
  assumes "studs \<noteq> []"
      and "find (\<lambda>c. course_id c = courseId) (courses db) = Some c"
      and "maxEnrollment c = Some m" and "1 \<le> m"
      and "length (enrolledStudents c) + length studs > m"
  shows "enrollStudents db courseId studs
           = (JsonError 400 (''Cannot enroll more than '' @ show_nat m @ '' students in this course''), db)"
  using assms by (simp add: enrollStudents_def over_capacity_def)

lemma enroll_within_capacity:
  assumes "studs \<noteq> []"
      and "find (\<lambda>c. course_id c = courseId) (courses db) = Some c"
      and "\<not> over_capacity c studs"
      and "\<forall>s\<in>set studs. s \<in> student_id ` set (students db)"
  shows "\<exists>d db'. enrollStudents db courseId studs = (Json200 d, db')
           \<and> enroll_course d
                = c\<lparr>enrolledStudents := enrolledStudents c
                                           @ filter (\<lambda>s. s \<notin> set (enrolledStudents c)) studs\<rparr>
           \<and> find (\<lambda>c. course_id c = courseId) (courses db') = Some (enroll_course d)"
proof (cases "filter (\<lambda>s. s \<notin> set (enrolledStudents c)) studs = []")
  case True
  then show ?thesis
    using assms(1-3) all_found [OF assms(4)]
    by (simp add: enrollStudents_def Let_def)
next
  case False
  let ?c' = "c\<lparr>enrolledStudents := enrolledStudents c
                                  @ filter (\<lambda>s. s \<notin> set (enrolledStudents c)) studs\<rparr>"
  have "find (\<lambda>c. course_id c = courseId) (courses (save_course db ?c')) = Some ?c'"
    using saved_course_found [OF assms(2), of ?c'] by simp
  then show ?thesis
    using False assms(1-3) all_found [OF assms(4)]
    by (simp add: enrollStudents_def Let_def)
qed

lemma enroll_refusal_keeps_store:
  "(\<exists>d. fst (enrollStudents db courseId studs) = Json200 d) \<or> snd (enrollStudents db courseId studs) = db"
  by (simp add: enrollStudents_def Let_def split: option.splits)

text \<open>
  C7. For every request with at least one student identifier on a course that is found
  and whose \<open>maxEnrollment\<close> is set (the schema makes it at least 1): when the number
  of enrolled students plus the number of incoming identifiers exceeds \<open>maxEnrollment\<close>,
  the reply is 400, its message cites \<open>maxEnrollment\<close>, and the store is as before; when
  it does not and every identifier is the one of a student, the request succeeds and the
  course found in the store afterwards lists the former students followed by the
  incoming ones that were not enrolled yet. Whatever the request, a reply that is not a
  success leaves the store as it was, so nobody is enrolled in part.
\<close>

theorem enrollment_capacity:
  assumes "studs \<noteq> []"
      and "find (\<lambda>c. course_id c = courseId) (courses db) = Some c"
      and "maxEnrollment c = Some m" and "1 \<le> m"
  shows "(length (enrolledStudents c) + length studs > m \<longrightarrow>
            enrollStudents db courseId studs
              = (JsonError 400
                   (''Cannot enroll more than '' @ show_nat m @ '' students in this course''), db))
       \<and> (length (enrolledStudents c) + length studs \<le> m
            \<and> (\<forall>s\<in>set studs. s \<in> student_id ` set (students db)) \<longrightarrow>
            (\<exists>d db'. enrollStudents db courseId studs = (Json200 d, db')
               \<and> enroll_course d
                    = c\<lparr>enrolledStudents := enrolledStudents c
                           @ filter (\<lambda>s. s \<notin> set (enrolledStudents c)) studs\<rparr>
               \<and> find (\<lambda>c. course_id c = courseId) (courses db') = Some (enroll_course d)))
       \<and> ((\<exists>d. fst (enrollStudents db courseId studs) = Json200 d)
            \<or> snd (enrollStudents db courseId studs) = db)"
proof -
  have a: "length (enrolledStudents c) + length studs \<le> m \<Longrightarrow> \<not> over_capacity c studs"
    using assms(3) by (simp add: over_capacity_def)
  show ?thesis
    using enroll_over_capacity [OF assms] enroll_within_capacity [OF assms(1,2)] a
      enroll_refusal_keeps_store [of db courseId studs]
    by blast
qed

lemma show_nat_2: "show_nat 2 = ''2''"
  by (simp add: show_nat.simps digit_def)

lemma sample_find_c1:
  "find (\<lambda>c. course_id c = ''c1'') (courses sample_db) = Some (hd (courses sample_db))"
  by (simp add: sample_db_def)

theorem enrollment_capacity_witness:
  "[''s2'', ''s3''] \<noteq> [] \<and> [''s2''] \<noteq> []
   \<and> find (\<lambda>c. course_id c = ''c1'') (courses sample_db) = Some (hd (courses sample_db))
   \<and> maxEnrollment (hd (courses sample_db)) = Some 2 \<and> (1::nat) \<le> 2
   \<and> enrolledStudents (hd (courses sample_db)) = [''s1'']
   \<and> enrollStudents sample_db ''c1'' [''s2'', ''s3'']
        = (JsonError 400 ''Cannot enroll more than 2 students in this course'', sample_db)
   \<and> (\<exists>d db'. enrollStudents sample_db ''c1'' [''s2''] = (Json200 d, db')
         \<and> enrolledStudents (enroll_course d) = [''s1'', ''s2'']
         \<and> find (\<lambda>c. course_id c = ''c1'') (courses db') = Some (enroll_course d))"
proof -
  have m: "maxEnrollment (hd (courses sample_db)) = Some 2"
    and e: "enrolledStudents (hd (courses sample_db)) = [''s1'']"
    by (simp_all add: sample_db_def)
  have x: "\<forall>s\<in>set [''s2'']. s \<in> student_id ` set (students sample_db)"
    by (simp add: sample_db_def sample_students_def)
  have n2: "[''s2'', ''s3''] \<noteq> ([] :: string list)" and n1: "[''s2''] \<noteq> ([] :: string list)" by simp_all
  have one: "(1::nat) \<le> 2" by simp
  have over: "enrollStudents sample_db ''c1'' [''s2'', ''s3'']
        = (JsonError 400 ''Cannot enroll more than 2 students in this course'', sample_db)"
    using enrollment_capacity [OF n2 sample_find_c1 m one] by (simp add: e show_nat_2)
  have within: "\<exists>d db'. enrollStudents sample_db ''c1'' [''s2''] = (Json200 d, db')
         \<and> enrolledStudents (enroll_course d) = [''s1'', ''s2'']
         \<and> find (\<lambda>c. course_id c = ''c1'') (courses db') = Some (enroll_course d)"
    using enrollment_capacity [OF n1 sample_find_c1 m one] x by (auto simp add: e)
  show ?thesis using over within m e sample_find_c1 by simp
qed

section \<open>Marking attendance: a day is marked once\<close>

lemma no_existing_no_duplicate:
  assumes "existingAttendance db s c b = None" and "fst b \<le> t" and "t < snd b"
  shows "\<not> list_ex (\<lambda>a. att_student a = s \<and> att_date a = t \<and> att_course a = c) (attendances db)"
  using assms
  by (auto simp add: existingAttendance_def find_None_iff list_ex_iff same_day_record_def)

lemma create_accepted:
  assumes "existingAttendance db s c b = None" and "fst b \<le> t" and "t < snd b"
      and "status \<in> set status_enum" and "method \<in> set method_enum"
  shows "Attendance_create db s c t status method by =
           Inr (\<lparr>attendance_id = new_attendance_id db, att_student = s, att_course = c,
                  att_date = t, att_status = status, att_method = method, att_markedBy = by\<rparr>,
                db\<lparr>attendances := attendances db
                   @ [\<lparr>attendance_id = new_attendance_id db, att_student = s, att_course = c,
                        att_date = t, att_status = status, att_method = method,
                        att_markedBy = by\<rparr>]\<rparr>)"
  using assms(4,5) no_existing_no_duplicate [OF assms(1-3)]
  by (simp add: Attendance_create_def Let_def)

lemma mark_step_existing:
  assumes "\<not> missing_required r" and "rec_student r = Some s" and "rec_course r = Some c"
      and "rec_date r = Some dv" and "enrolled_in db s c" and "day_bounds tz dv = Some b"
      and "existingAttendance db s c b = Some a"
  shows "mark_step tz caller r (res, errs, db) =
           (res @ [\<lparr>result_record = r, result_status = ''already_marked'',
                     attendanceId = attendance_id a\<rparr>], errs, db)"
  using assms by (simp add: mark_step_def Let_def)

lemma mark_step_existing_store:
  assumes "rec_student r = Some s" and "rec_course r = Some c" and "rec_date r = Some dv"
      and "day_bounds tz dv = Some b" and "existingAttendance db s c b = Some a"
  shows "snd (snd (mark_step tz caller r (res, errs, db))) = db"
  using assms by (simp add: mark_step_def Let_def)

lemma day_holds_dateD:
  assumes "day_holds_date tz r" and "rec_date r = Some dv" and "day_bounds tz dv = Some b"
  shows "\<exists>t. time_value dv = Some t \<and> fst b \<le> t \<and> t < snd b"
  using assms by (auto simp add: day_holds_date_def record_bounds_def split: option.splits)

lemma mark_step_new:
  assumes "\<not> missing_required r" and "rec_student r = Some s" and "rec_course r = Some c"
      and "rec_date r = Some dv" and "enrolled_in db s c" and "day_bounds tz dv = Some b"
      and "existingAttendance db s c b = None" and "store_accepts r"
      and "time_value dv = Some t" and "fst b \<le> t" and "t < snd b"
  shows "mark_step tz caller r (res, errs, db) =
           (res @ [\<lparr>result_record = r, result_status = ''marked'',
                     attendanceId = new_attendance_id db\<rparr>], errs,
            db\<lparr>attendances := attendances db
               @ [\<lparr>attendance_id = new_attendance_id db, att_student = s, att_course = c,
                    att_date = t, att_status = the (rec_status r),
                    att_method = (case rec_method r of None \<Rightarrow> ''manual'' | Some m \<Rightarrow> m),
                    att_markedBy = user_id caller\<rparr>]\<rparr>)"
proof -
  have "the (rec_status r) \<in> set status_enum"
    "(case rec_method r of None \<Rightarrow> ''manual'' | Some m \<Rightarrow> m) \<in> set method_enum"
    using assms(8) by (simp_all add: store_accepts_def)
  from create_accepted [OF assms(7,10,11) this, of "user_id caller"] assms(1-7,9)
  show ?thesis by (simp add: mark_step_def Let_def)
qed

lemma find_append_new:
  "find P xs = None \<Longrightarrow> P a \<Longrightarrow> find P (xs @ [a]) = Some a"
  by (induction xs) (auto split: if_splits)

lemma filter_append_new:
  "find P xs = None \<Longrightarrow> P a \<Longrightarrow> filter P (xs @ [a]) = [a]"
  by (auto simp add: find_None_iff filter_empty_conv)

lemma mark_twice:
  assumes r: "\<not> missing_required r" "rec_student r = Some s" "rec_course r = Some c"
             "rec_date r = Some dv"
      and r2: "\<not> missing_required r2" "rec_student r2 = Some s" "rec_course r2 = Some c"
              "rec_date r2 = Some dv2"
      and b: "day_bounds tz dv = Some b" and b2: "day_bounds tz dv2 = Some b"
      and e: "enrolled_in db s c" and n: "existingAttendance db s c b = None"
      and st: "store_accepts r"
      and t: "time_value dv = Some t" "fst b \<le> t" "t < snd b"
  shows "\<exists>a db'. markAttendance tz db caller [r, r2] =
           (Json200 \<lparr>results = [\<lparr>result_record = r, result_status = ''marked'',
                                  attendanceId = attendance_id a\<rparr>,
                                \<lparr>result_record = r2, result_status = ''already_marked'',
                                  attendanceId = attendance_id a\<rparr>],
                      errors = [], processed = 2, failed = 0\<rparr>, db')
           \<and> attendances db' = attendances db @ [a]
           \<and> filter (same_day_record s c b) (attendances db') = [a]"
proof -
  let ?a = "\<lparr>attendance_id = new_attendance_id db, att_student = s, att_course = c,
              att_date = t, att_status = the (rec_status r),
              att_method = (case rec_method r of None \<Rightarrow> ''manual'' | Some m \<Rightarrow> m),
              att_markedBy = user_id caller\<rparr>"
  let ?db' = "db\<lparr>attendances := attendances db @ [?a]\<rparr>"
  have first: "mark_step tz caller r ([], [], db) =
                 ([\<lparr>result_record = r, result_status = ''marked'',
                    attendanceId = new_attendance_id db\<rparr>], [], ?db')"
    using mark_step_new [OF r e b n st t, of caller "[]" "[]"] by simp
  have here: "same_day_record s c b ?a"
    using t(2,3) by (simp add: same_day_record_def)
  have none: "find (same_day_record s c b) (attendances db) = None"
    using n by (simp add: existingAttendance_def)
  have att: "attendances ?db' = attendances db @ [?a]" by simp
  have ex: "existingAttendance ?db' s c b = Some ?a"
  proof -
    have "find (same_day_record s c b) (attendances db @ [?a]) = Some ?a"
      using none here by (rule find_append_new)
    then show ?thesis by (simp only: existingAttendance_def att)
  qed
  have e': "enrolled_in ?db' s c" using e by (simp add: enrolled_in_def)
  have second: "mark_step tz caller r2 ([\<lparr>result_record = r, result_status = ''marked'',
                    attendanceId = new_attendance_id db\<rparr>], [], ?db') =
                 ([\<lparr>result_record = r, result_status = ''marked'',
                    attendanceId = new_attendance_id db\<rparr>,
                   \<lparr>result_record = r2, result_status = ''already_marked'',
                    attendanceId = new_attendance_id db\<rparr>], [], ?db')"
    using mark_step_existing [OF r2 e' b2 ex, of caller] by simp
  have m: "markAttendance tz db caller [r, r2] =
          (Json200 \<lparr>results = [\<lparr>result_record = r, result_status = ''marked'',
                                 attendanceId = attendance_id ?a\<rparr>,
                               \<lparr>result_record = r2, result_status = ''already_marked'',
                                 attendanceId = attendance_id ?a\<rparr>],
                     errors = [], processed = 2, failed = 0\<rparr>, ?db')"
    by (simp add: markAttendance_def first second)
  have "filter (same_day_record s c b) (attendances db @ [?a]) = [?a]"
    using none here by (rule filter_append_new)
  then have f: "filter (same_day_record s c b) (attendances ?db') = [?a]"
    by (simp only: att)
  show ?thesis
    by (rule exI [of _ ?a], rule exI [of _ ?db'], intro conjI, rule m, rule att, rule f)
qed

text \<open>
  C3, as amended. Take an element of a batch for student \<open>s\<close>, course \<open>c\<close> and a date
  whose local day, in the zone of the server, has the bounds \<open>b\<close>; take it at any point of
  the loop. When the store holds a record of \<open>s\<close> and \<open>c\<close> within \<open>b\<close>, the turn leaves the
  store as it is, so no record is created and none is changed; and when the element has
  its required fields and \<open>s\<close> is enrolled in \<open>c\<close>, the two checks that come first, it is
  added to the results with status \<open>already_marked\<close> and the identifier of that record.
  When the store holds no such record, the store accepts the element and the day holds
  its date, a batch of this element followed by a second one for \<open>s\<close>, \<open>c\<close> and a date
  of the same local day is answered with one \<open>marked\<close> and one \<open>already_marked\<close> result
  that name the same record, and the store then holds exactly one record of \<open>s\<close> and \<open>c\<close>
  on that day.
\<close>

theorem marking_twice_keeps_one_record:
  assumes "rec_student r = Some s" and "rec_course r = Some c" and "rec_date r = Some dv"
      and "day_bounds tz dv = Some b"
  shows "(\<forall>a. existingAttendance db s c b = Some a \<longrightarrow>
            snd (snd (mark_step tz caller r (res, errs, db))) = db
            \<and> (\<not> missing_required r \<and> enrolled_in db s c \<longrightarrow>
                 mark_step tz caller r (res, errs, db) =
                   (res @ [\<lparr>result_record = r, result_status = ''already_marked'',
                             attendanceId = attendance_id a\<rparr>], errs, db)))
       \<and> (existingAttendance db s c b = None \<and> \<not> missing_required r \<and> enrolled_in db s c
            \<and> store_accepts r \<and> day_holds_date tz r \<longrightarrow>
            (\<forall>r2 dv2. \<not> missing_required r2 \<and> rec_student r2 = Some s \<and> rec_course r2 = Some c
                \<and> rec_date r2 = Some dv2 \<and> day_bounds tz dv2 = Some b \<longrightarrow>
               (\<exists>a db'. markAttendance tz db caller [r, r2] =
                   (Json200 \<lparr>results = [\<lparr>result_record = r, result_status = ''marked'',
                                          attendanceId = attendance_id a\<rparr>,
                                        \<lparr>result_record = r2, result_status = ''already_marked'',
                                          attendanceId = attendance_id a\<rparr>],
                              errors = [], processed = 2, failed = 0\<rparr>, db')
                   \<and> attendances db' = attendances db @ [a]
                   \<and> filter (same_day_record s c b) (attendances db') = [a])))"
proof (intro conjI allI impI)
  fix a assume "existingAttendance db s c b = Some a"
  then show "snd (snd (mark_step tz caller r (res, errs, db))) = db"
    using mark_step_existing_store [OF assms] by simp
next
  fix a assume "existingAttendance db s c b = Some a"
    and "\<not> missing_required r \<and> enrolled_in db s c"
  then show "mark_step tz caller r (res, errs, db) =
               (res @ [\<lparr>result_record = r, result_status = ''already_marked'',
                         attendanceId = attendance_id a\<rparr>], errs, db)"
    using mark_step_existing [OF _ assms(1-3) _ assms(4)] by simp
next
  fix r2 dv2
  assume a: "existingAttendance db s c b = None \<and> \<not> missing_required r \<and> enrolled_in db s c
             \<and> store_accepts r \<and> day_holds_date tz r"
    and b: "\<not> missing_required r2 \<and> rec_student r2 = Some s \<and> rec_course r2 = Some c
            \<and> rec_date r2 = Some dv2 \<and> day_bounds tz dv2 = Some b"
  from a have "day_holds_date tz r" by simp
  from day_holds_dateD [OF this assms(3,4)] obtain t where
    t: "time_value dv = Some t" "fst b \<le> t" "t < snd b" by blast
  have "\<not> missing_required r" "\<not> missing_required r2" "rec_student r2 = Some s"
    "rec_course r2 = Some c" "rec_date r2 = Some dv2" "day_bounds tz dv2 = Some b"
    "enrolled_in db s c" "existingAttendance db s c b = None" "store_accepts r"
    using a b by simp_all
  with assms t show "\<exists>a db'. markAttendance tz db caller [r, r2] =
                   (Json200 \<lparr>results = [\<lparr>result_record = r, result_status = ''marked'',
                                          attendanceId = attendance_id a\<rparr>,
                                        \<lparr>result_record = r2, result_status = ''already_marked'',
                                          attendanceId = attendance_id a\<rparr>],
                              errors = [], processed = 2, failed = 0\<rparr>, db')
                   \<and> attendances db' = attendances db @ [a]
                   \<and> filter (same_day_record s c b) (attendances db') = [a]"
    by (intro mark_twice)
qed

lemma sample_mark_fields:
  "rec_student (sample_mark s d st) = Some s"
  "rec_course (sample_mark s d st) = Some ''c1''"
  "rec_date (sample_mark s d st) = Some (TextDate d)"
  "rec_status (sample_mark s d st) = Some st"
  "rec_method (sample_mark s d st) = None"
  by (simp_all add: sample_mark_def)

lemma sample_s1_enrolled: "enrolled_in sample_db ''s1'' ''c1''"
  by (simp add: enrolled_in_def sample_db_def)

lemma karachi_days:
  "day_bounds karachi (TextDate 3600000) = Some (- 18000000, 68400000)"
  "day_bounds karachi (TextDate 0) = Some (- 18000000, 68400000)"
  "day_bounds karachi (TextDate 259200000) = Some (241200000, 327600000)"
  "day_bounds karachi (TextDate 262800000) = Some (241200000, 327600000)"
  by (simp_all add: day_bounds_def time_value_def valid_time_def max_time_def karachi_def
      offset_zone_def)

lemma sample_existing:
  "existingAttendance sample_db ''s1'' ''c1'' (- 18000000, 68400000)
     = Some (sample_attendance 0 ''s1'' 0 ''present'')"
  by (simp add: existingAttendance_def sample_db_def same_day_record_def sample_attendance_def)

lemma sample_not_existing:
  "existingAttendance sample_db ''s1'' ''c1'' (241200000, 327600000) = None"
  by (simp add: existingAttendance_def sample_db_def same_day_record_def sample_attendance_def)

lemma sample_mark_complete: "st \<noteq> [] \<Longrightarrow> \<not> missing_required (sample_mark ''s1'' d st)"
  by (simp add: missing_required_def sample_mark_def truthy_def date_falsy_def)

theorem marking_twice_keeps_one_record_witness:
  "day_bounds karachi (TextDate 3600000) = Some (- 18000000, 68400000)
   \<and> existingAttendance sample_db ''s1'' ''c1'' (- 18000000, 68400000)
       = Some (sample_attendance 0 ''s1'' 0 ''present'')
   \<and> mark_step karachi sample_teacher (sample_mark ''s1'' 3600000 ''absent'') ([], [], sample_db) =
       ([\<lparr>result_record = sample_mark ''s1'' 3600000 ''absent'', result_status = ''already_marked'',
          attendanceId = 0\<rparr>], [], sample_db)
   \<and> day_bounds karachi (TextDate 259200000) = Some (241200000, 327600000)
   \<and> day_bounds karachi (TextDate 262800000) = Some (241200000, 327600000)
   \<and> existingAttendance sample_db ''s1'' ''c1'' (241200000, 327600000) = None
   \<and> (\<exists>a db'. markAttendance karachi sample_db sample_teacher
                   [sample_mark ''s1'' 259200000 ''present'', sample_mark ''s1'' 262800000 ''late''] =
                 (Json200 \<lparr>results =
                             [\<lparr>result_record = sample_mark ''s1'' 259200000 ''present'',
                               result_status = ''marked'', attendanceId = attendance_id a\<rparr>,
                              \<lparr>result_record = sample_mark ''s1'' 262800000 ''late'',
                               result_status = ''already_marked'', attendanceId = attendance_id a\<rparr>],
                            errors = [], processed = 2, failed = 0\<rparr>, db')
         \<and> attendances db' = attendances sample_db @ [a]
         \<and> filter (same_day_record ''s1'' ''c1'' (241200000, 327600000)) (attendances db') = [a])"
proof -
  let ?r1 = "sample_mark ''s1'' 3600000 ''absent''"
  let ?r = "sample_mark ''s1'' 259200000 ''present''"
  let ?r2 = "sample_mark ''s1'' 262800000 ''late''"
  have c1: "\<not> missing_required ?r1" and c: "\<not> missing_required ?r" and c2: "\<not> missing_required ?r2"
    by (simp_all add: sample_mark_complete)
  have st: "store_accepts ?r"
    by (simp add: store_accepts_def sample_mark_def status_enum_def method_enum_def)
  have hd: "day_holds_date karachi ?r"
    by (simp add: day_holds_date_def record_bounds_def sample_mark_fields karachi_days
        time_value_def valid_time_def max_time_def)
  have id0: "attendance_id (sample_attendance 0 ''s1'' 0 ''present'') = 0"
    by (simp add: sample_attendance_def)
  note t1 = marking_twice_keeps_one_record
      [OF sample_mark_fields(1-3) [of "''s1''" 3600000 "''absent''"] karachi_days(1),
       where db = sample_db and caller = sample_teacher and res = "[]" and errs = "[]"]
  have first: "mark_step karachi sample_teacher ?r1 ([], [], sample_db) =
       ([\<lparr>result_record = ?r1, result_status = ''already_marked'', attendanceId = 0\<rparr>], [], sample_db)"
    using t1 sample_existing c1 sample_s1_enrolled id0 by auto
  note t2 = marking_twice_keeps_one_record
      [OF sample_mark_fields(1-3) [of "''s1''" 259200000 "''present''"] karachi_days(3),
       where db = sample_db and caller = sample_teacher and res = "[]" and errs = "[]"]
  have "\<not> missing_required ?r2 \<and> rec_student ?r2 = Some ''s1'' \<and> rec_course ?r2 = Some ''c1''
        \<and> rec_date ?r2 = Some (TextDate 262800000)
        \<and> day_bounds karachi (TextDate 262800000) = Some (241200000, 327600000)"
    using c2 by (simp add: sample_mark_fields karachi_days)
  with t2 sample_not_existing c sample_s1_enrolled st hd
  have second: "\<exists>a db'. markAttendance karachi sample_db sample_teacher [?r, ?r2] =
                 (Json200 \<lparr>results =
                             [\<lparr>result_record = ?r, result_status = ''marked'',
                               attendanceId = attendance_id a\<rparr>,
                              \<lparr>result_record = ?r2, result_status = ''already_marked'',
                               attendanceId = attendance_id a\<rparr>],
                            errors = [], processed = 2, failed = 0\<rparr>, db')
         \<and> attendances db' = attendances sample_db @ [a]
         \<and> filter (same_day_record ''s1'' ''c1'' (241200000, 327600000)) (attendances db') = [a]"
    by blast
  show ?thesis
    by (intro conjI karachi_days(1) karachi_days(3) karachi_days(4) sample_existing first
        sample_not_existing second)
qed

text \<open>
  C3, as stated for every element whose student, course and day have a record, fails
  where the enrollment check stops the element first: \<open>s2\<close> has a record in \<open>c1\<close> on
  the day of the date and is not enrolled in \<open>c1\<close>; the element is reported in the
  errors, and the results are empty.
\<close>

theorem unenrolled_duplicate_counterexample:
  "day_bounds karachi (TextDate 0) = Some (- 18000000, 68400000)
   \<and> existingAttendance sample_db ''s2'' ''c1'' (- 18000000, 68400000)
       = Some (sample_attendance 3 ''s2'' 0 ''present'')
   \<and> markAttendance karachi sample_db sample_teacher [sample_mark ''s2'' 0 ''present'']
       = (Json200 \<lparr>results = [],
                   errors = [\<lparr>error_record = sample_mark ''s2'' 0 ''present'',
                               error_message = ''Student is not enrolled in this course''\<rparr>],
                   processed = 0, failed = 1\<rparr>, sample_db)"
  by (simp add: karachi_days markAttendance_def sample_mark_def mark_step_def missing_required_def
      truthy_def date_falsy_def enrolled_in_def sample_db_def existingAttendance_def
      same_day_record_def sample_attendance_def Let_def)

section \<open>Marking attendance: a failure does not stop the batch\<close>

lemma passes_fields:
  assumes "\<not> fails_check st r"
  shows "\<not> missing_required r" and "rec_student r = Some (the (rec_student r))"
    and "rec_course r = Some (the (rec_course r))" and "rec_date r = Some (the (rec_date r))"
    and "enrolled_in st (the (rec_student r)) (the (rec_course r))"
  using assms
  by (auto simp add: fails_check_def missing_required_def truthy_def date_falsy_def
      split: option.splits)

lemma mark_step_fails:
  assumes "fails_check st r"
  shows "\<exists>e. mark_step tz caller r (res, errs, st) =
           (res, errs @ [\<lparr>error_record = r, error_message = e\<rparr>], st)"
  using assms by (auto simp add: mark_step_def fails_check_def Let_def)

lemma mark_step_no_bounds:
  assumes "\<not> fails_check st r" and "record_bounds tz r = None"
  shows "\<exists>e. mark_step tz caller r (res, errs, st) =
           (res, errs @ [\<lparr>error_record = r, error_message = e\<rparr>], st)"
  using passes_fields(1,5) [OF assms(1)] assms(2)
  by (simp add: mark_step_def record_bounds_def Let_def)

lemma existing_on_day:
  assumes "record_bounds tz r = Some b"
  shows "(existingAttendance st (the (rec_student r)) (the (rec_course r)) b = None)
           = (\<not> list_ex (on_day tz r) (attendances st))"
  using assms by (auto simp add: existingAttendance_def find_None_iff list_ex_iff on_day_def)

lemma create_refused:
  assumes "\<not> store_accepts r \<or> duplicate_key st r"
  shows "\<exists>e. Attendance_create st (the (rec_student r)) (the (rec_course r))
                (the (time_value (the (rec_date r)))) (the (rec_status r))
                (case rec_method r of None \<Rightarrow> ''manual'' | Some m \<Rightarrow> m) by = Inl e"
  using assms by (auto simp add: Attendance_create_def store_accepts_def duplicate_key_def)

lemma create_done:
  assumes "store_accepts r" and "\<not> duplicate_key st r"
  shows "\<exists>a. Attendance_create st (the (rec_student r)) (the (rec_course r))
                (the (time_value (the (rec_date r)))) (the (rec_status r))
                (case rec_method r of None \<Rightarrow> ''manual'' | Some m \<Rightarrow> m) by
              = Inr (a, st\<lparr>attendances := attendances st @ [a]\<rparr>)"
  using assms
  by (simp add: Attendance_create_def store_accepts_def duplicate_key_def Let_def)

lemma mark_step_refused:
  assumes "\<not> fails_check st r" and "record_bounds tz r = Some b"
      and "\<not> list_ex (on_day tz r) (attendances st)"
      and "\<not> store_accepts r \<or> duplicate_key st r"
  shows "\<exists>e. mark_step tz caller r (res, errs, st) =
           (res, errs @ [\<lparr>error_record = r, error_message = e\<rparr>], st)"
proof -
  have n: "existingAttendance st (the (rec_student r)) (the (rec_course r)) b = None"
    using existing_on_day [OF assms(2)] assms(3) by simp
  from create_refused [OF assms(4), of "user_id caller"] obtain e where
    c: "Attendance_create st (the (rec_student r)) (the (rec_course r))
          (the (time_value (the (rec_date r)))) (the (rec_status r))
          (case rec_method r of None \<Rightarrow> ''manual'' | Some m \<Rightarrow> m) (user_id caller) = Inl e"
    by blast
  have b: "day_bounds tz (the (rec_date r)) = Some b"
    using assms(2) by (simp add: record_bounds_def)
  have "mark_step tz caller r (res, errs, st) =
           (res, errs @ [\<lparr>error_record = r, error_message = e\<rparr>], st)"
    using passes_fields(1,5) [OF assms(1)] by (simp add: mark_step_def Let_def b n c)
  then show ?thesis by (rule exI)
qed

lemma mark_step_turn_fails:
  assumes "turn_fails tz st r"
  shows "\<exists>e. mark_step tz caller r (res, errs, st) =
           (res, errs @ [\<lparr>error_record = r, error_message = e\<rparr>], st)"
proof (cases "fails_check st r")
  case True
  then show ?thesis by (rule mark_step_fails)
next
  case False
  show ?thesis
  proof (cases "record_bounds tz r")
    case None
    with False show ?thesis by (rule mark_step_no_bounds)
  next
    case (Some b)
    from assms False Some have "\<not> list_ex (on_day tz r) (attendances st)"
      and "\<not> store_accepts r \<or> duplicate_key st r"
      by (simp_all add: turn_fails_def)
    with False Some show ?thesis by (rule mark_step_refused)
  qed
qed

lemma mark_step_turn_passes:
  assumes "\<not> turn_fails tz st r"
  shows "\<exists>y st'. mark_step tz caller r (res, errs, st) = (res @ [y], errs, st')
           \<and> result_record y = r \<and> (result_status y = ''marked'' \<longrightarrow> store_accepts r)
           \<and> courses st' = courses st \<and> set (attendances st) \<subseteq> set (attendances st')"
proof -
  have f: "\<not> fails_check st r" using assms by (simp add: turn_fails_def)
  from assms obtain b where rb: "record_bounds tz r = Some b"
    by (auto simp add: turn_fails_def)
  have b: "day_bounds tz (the (rec_date r)) = Some b"
    using rb by (simp add: record_bounds_def)
  note p = passes_fields(1,5) [OF f]
  show ?thesis
  proof (cases "existingAttendance st (the (rec_student r)) (the (rec_course r)) b")
    case (Some a)
    let ?y = "\<lparr>result_record = r, result_status = ''already_marked'',
                attendanceId = attendance_id a\<rparr>"
    have "mark_step tz caller r (res, errs, st) = (res @ [?y], errs, st)"
      using p by (simp add: mark_step_def Let_def b Some)
    then show ?thesis
      by (intro exI [of _ ?y] exI [of _ st]) simp
  next
    case None
    then have "\<not> list_ex (on_day tz r) (attendances st)"
      using existing_on_day [OF rb] by simp
    with assms f rb have sa: "store_accepts r" and nd: "\<not> duplicate_key st r"
      by (simp_all add: turn_fails_def)
    from create_done [OF sa nd, of "user_id caller"] obtain a where
      c: "Attendance_create st (the (rec_student r)) (the (rec_course r))
            (the (time_value (the (rec_date r)))) (the (rec_status r))
            (case rec_method r of None \<Rightarrow> ''manual'' | Some m \<Rightarrow> m) (user_id caller)
          = Inr (a, st\<lparr>attendances := attendances st @ [a]\<rparr>)"
      by blast
    let ?y = "\<lparr>result_record = r, result_status = ''marked'', attendanceId = attendance_id a\<rparr>"
    have "mark_step tz caller r (res, errs, st)
            = (res @ [?y], errs, st\<lparr>attendances := attendances st @ [a]\<rparr>)"
      using p by (simp add: mark_step_def Let_def b None c)
    then show ?thesis
      using sa by (intro exI [of _ ?y] exI [of _ "st\<lparr>attendances := attendances st @ [a]\<rparr>"]) auto
  qed
qed

lemma mark_step_shape:
  "\<exists>ra ea st'. mark_step tz caller r (res, errs, st) = (res @ ra, errs @ ea, st')
      \<and> step_ok tz st r ra ea st'"
proof (cases "turn_fails tz st r")
  case True
  from mark_step_turn_fails [OF True, of caller res errs] obtain e where
    "mark_step tz caller r (res, errs, st) =
       (res @ [], errs @ [\<lparr>error_record = r, error_message = e\<rparr>], st)" by auto
  moreover have "step_ok tz st r [] [\<lparr>error_record = r, error_message = e\<rparr>] st"
    using True by (simp add: step_ok_def)
  ultimately show ?thesis by blast
next
  case False
  from mark_step_turn_passes [OF False, of caller res errs] obtain y st' where
    s: "mark_step tz caller r (res, errs, st) = (res @ [y], errs @ [], st')"
    and y: "result_record y = r" "result_status y = ''marked'' \<longrightarrow> store_accepts r"
    and c: "courses st' = courses st" "set (attendances st) \<subseteq> set (attendances st')"
    by auto
  have "step_ok tz st r [y] [] st'"
    using False y c by (simp add: step_ok_def)
  with s show ?thesis by blast
qed

lemma fails_check_courses:
  "courses st' = courses st \<Longrightarrow> fails_check st' r = fails_check st r"
  by (simp add: fails_check_def enrolled_in_def)

lemma holds_date_no_duplicate:
  assumes "day_holds_date tz r" and "\<not> list_ex (on_day tz r) (attendances st)"
  shows "\<not> duplicate_key st r"
  using assms
  by (auto simp add: day_holds_date_def duplicate_key_def on_day_def list_ex_iff
      same_day_record_def split: option.splits)

lemma holds_date_bounds: "day_holds_date tz r \<Longrightarrow> record_bounds tz r \<noteq> None"
  by (auto simp add: day_holds_date_def split: option.splits)

lemma batch_ok_Nil: "batch_ok tz st [] [] [] st"
  by (simp add: batch_ok_def)

lemma batch_ok_Cons:
  assumes "step_ok tz st r ra1 ea1 st1" and "batch_ok tz st1 recs ra2 ea2 st2"
  shows "batch_ok tz st (r # recs) (ra1 @ ra2) (ea1 @ ea2) st2"
proof -
  have c: "courses st1 = courses st" using assms(1) by (simp add: step_ok_def)
  have sub1: "set (attendances st) \<subseteq> set (attendances st1)"
    using assms(1) by (simp add: step_ok_def)
  have sub2: "set (attendances st1) \<subseteq> set (attendances st2)"
    using assms(2) by (simp add: batch_ok_def)
  have fc: "fails_check st1 x = fails_check st x" for x
    using c by (rule fails_check_courses)
  have one: "ra1 = [] \<and> length ea1 = 1 \<or> length ra1 = 1 \<and> ea1 = []"
    using assms(1) by (cases ra1; cases ea1) (auto simp add: step_ok_def)
  have in_err: "ra1 = [] \<Longrightarrow> r \<in> error_record ` set ea1"
    using one assms(1) by (cases ea1) (auto simp add: step_ok_def)
  have in_res: "ea1 = [] \<Longrightarrow> r \<in> result_record ` set ra1"
    using one assms(1) by (cases ra1) (auto simp add: step_ok_def)
  have r_in: "r \<in> error_record ` set ea1 \<or> r \<in> result_record ` set ra1"
    using one in_err in_res by blast
  have tf: "turn_fails tz st r \<Longrightarrow> r \<in> error_record ` set ea1"
    using in_err assms(1) by (simp add: step_ok_def)
  have tp: "\<not> turn_fails tz st r \<Longrightarrow> r \<in> result_record ` set ra1"
    using in_res assms(1) by (simp add: step_ok_def)
  have r_fail: "fails_check st r \<Longrightarrow> r \<in> error_record ` set ea1"
    using tf by (simp add: turn_fails_def)
  have r_nob: "record_bounds tz r = None \<Longrightarrow> r \<in> error_record ` set ea1"
    using tf by (simp add: turn_fails_def)
  have r_ref: "r \<in> error_record ` set ea1"
    if "\<not> store_accepts r" "\<not> list_ex (on_day tz r) (attendances st2)"
  proof -
    have "\<not> list_ex (on_day tz r) (attendances st)"
      using that(2) sub1 sub2 by (auto simp add: list_ex_iff)
    with that(1) have "turn_fails tz st r" by (simp add: turn_fails_def)
    then show ?thesis by (rule tf)
  qed
  have r_pass: "r \<in> result_record ` set ra1"
    if "\<not> fails_check st r" "store_accepts r" "day_holds_date tz r"
  proof -
    have "\<not> turn_fails tz st r"
      using that holds_date_bounds [OF that(3)] holds_date_no_duplicate [OF that(3), of st]
      by (auto simp add: turn_fails_def)
    then show ?thesis by (rule tp)
  qed
  have len: "length (ra1 @ ra2) + length (ea1 @ ea2) = length (r # recs)"
    using assms by (simp add: step_ok_def batch_ok_def)
  have res: "\<forall>x\<in>set (ra1 @ ra2). result_record x \<in> set (r # recs)
               \<and> (result_status x = ''marked'' \<longrightarrow> store_accepts (result_record x))"
    using assms by (auto simp add: step_ok_def batch_ok_def)
  have err: "\<forall>x\<in>set (ea1 @ ea2). error_record x \<in> set (r # recs)"
    using assms by (auto simp add: step_ok_def batch_ok_def)
  have f: "\<forall>x\<in>set (r # recs). fails_check st x \<longrightarrow> x \<in> error_record ` set (ea1 @ ea2)"
    using r_fail assms(2) fc by (auto simp add: batch_ok_def)
  have nb: "\<forall>x\<in>set (r # recs). record_bounds tz x = None \<longrightarrow> x \<in> error_record ` set (ea1 @ ea2)"
    using r_nob assms(2) by (auto simp add: batch_ok_def)
  have rf: "\<forall>x\<in>set (r # recs). \<not> store_accepts x \<and> \<not> list_ex (on_day tz x) (attendances st2)
               \<longrightarrow> x \<in> error_record ` set (ea1 @ ea2)"
    using r_ref assms(2) by (auto simp add: batch_ok_def)
  have p: "\<forall>x\<in>set (r # recs). \<not> fails_check st x \<and> store_accepts x \<and> day_holds_date tz x
               \<longrightarrow> x \<in> result_record ` set (ra1 @ ra2)"
    using r_pass assms(2) fc by (auto simp add: batch_ok_def)
  have e: "\<forall>x\<in>set (r # recs). x \<in> error_record ` set (ea1 @ ea2) \<or> x \<in> result_record ` set (ra1 @ ra2)"
    using r_in assms(2) by (auto simp add: batch_ok_def)
  have cs: "courses st2 = courses st" using assms(2) c by (simp add: batch_ok_def)
  have sub: "set (attendances st) \<subseteq> set (attendances st2)" using sub1 sub2 by blast
  show ?thesis
    unfolding batch_ok_def using cs sub len res err f nb rf p e by blast
qed

lemma mark_loop_shape:
  "\<exists>ra ea st'. mark_loop tz caller recs (res, errs, st) = (res @ ra, errs @ ea, st')
      \<and> batch_ok tz st recs ra ea st'"
proof (induction recs arbitrary: res errs st)
  case Nil
  have "mark_loop tz caller [] (res, errs, st) = (res @ [], errs @ [], st)" by simp
  with batch_ok_Nil show ?case by blast
next
  case (Cons r recs)
  from mark_step_shape [of tz caller r res errs st] obtain ra1 ea1 st1 where
    step: "mark_step tz caller r (res, errs, st) = (res @ ra1, errs @ ea1, st1)"
    and ok1: "step_ok tz st r ra1 ea1 st1" by blast
  from Cons.IH [of "res @ ra1" "errs @ ea1" st1] obtain ra2 ea2 st2 where
    loop: "mark_loop tz caller recs (res @ ra1, errs @ ea1, st1)
             = ((res @ ra1) @ ra2, (errs @ ea1) @ ea2, st2)"
    and ok2: "batch_ok tz st1 recs ra2 ea2 st2" by blast
  have "mark_loop tz caller (r # recs) (res, errs, st)
          = (res @ (ra1 @ ra2), errs @ (ea1 @ ea2), st2)"
    using step loop by simp
  with batch_ok_Cons [OF ok1 ok2] show ?case by blast
qed

lemma mark_loop_after_failure:
  assumes "turn_fails tz st x"
  shows "\<exists>e. mark_loop tz caller (x # rest) (res, errs, st)
              = mark_loop tz caller rest
                  (res, errs @ [\<lparr>error_record = x, error_message = e\<rparr>], st)"
  using mark_step_turn_fails [OF assms, of caller res errs] by auto

lemma mark_loop_after_success:
  assumes "\<not> turn_fails tz st x"
  shows "\<exists>y st'. mark_loop tz caller (x # rest) (res, errs, st)
              = mark_loop tz caller rest (res @ [y], errs, st') \<and> result_record y = x"
proof -
  from mark_step_turn_passes [OF assms, of caller res errs] obtain y st' where
    "mark_step tz caller x (res, errs, st) = (res @ [y], errs, st')" and y: "result_record y = x"
    by blast
  then have "mark_loop tz caller (x # rest) (res, errs, st)
               = mark_loop tz caller rest (res @ [y], errs, st')" by simp
  with y show ?thesis by blast
qed

text \<open>
  C8, as amended. For every batch with at least one element the reply is a success that
  carries the results and the errors that the loop has built, and the two counts, \<open>processed\<close> the number of results
  and \<open>failed\<close> the number of errors, which together are as many as the elements. Every
  element is in one of the two lists. In the errors are: an element that lacks a required
  field or whose student is not enrolled; an element whose day, in the zone of the
  server, has a bound that is no date, so that the query of the store throws; and an
  element that the store does not accept, unless the store holds a record of its
  student, course and day when the batch is done. An element that passes the checks,
  that the store accepts and whose day holds its date is in the results, wherever it
  stands in the batch, and no element that the store does not accept is reported as
  \<open>marked\<close>. At every point of the loop, a turn that fails, which includes the refusal
  of the store for a missing enumeration value or a duplicate key, makes the errors one
  longer, leaves the results and the store as they were, and the loop goes on with the
  rest; a turn that does not fail makes the results one longer, and the loop goes on
  with the rest.
\<close>

theorem batch_never_aborts:
  assumes "recs \<noteq> []"
  shows "(\<exists>d db'. markAttendance tz db caller recs = (Json200 d, db')
           \<and> mark_loop tz caller recs ([], [], db) = (results d, errors d, db')
           \<and> processed d = length (results d) \<and> failed d = length (errors d)
           \<and> length (results d) + length (errors d) = length recs
           \<and> (\<forall>r\<in>set recs. r \<in> error_record ` set (errors d)
                               \<or> r \<in> result_record ` set (results d))
           \<and> (\<forall>r\<in>set recs. fails_check db r \<longrightarrow> r \<in> error_record ` set (errors d))
           \<and> (\<forall>r\<in>set recs. record_bounds tz r = None \<longrightarrow> r \<in> error_record ` set (errors d))
           \<and> (\<forall>r\<in>set recs. \<not> store_accepts r \<and> \<not> list_ex (on_day tz r) (attendances db') \<longrightarrow>
                  r \<in> error_record ` set (errors d))
           \<and> (\<forall>r\<in>set recs. \<not> fails_check db r \<and> store_accepts r \<and> day_holds_date tz r \<longrightarrow>
                  r \<in> result_record ` set (results d))
           \<and> (\<forall>x\<in>set (results d). result_status x = ''marked'' \<longrightarrow>
                  store_accepts (result_record x)))
       \<and> (\<forall>x rest res errs st.
             (turn_fails tz st x \<longrightarrow>
                (\<exists>e. mark_loop tz caller (x # rest) (res, errs, st)
                       = mark_loop tz caller rest
                           (res, errs @ [\<lparr>error_record = x, error_message = e\<rparr>], st)))
             \<and> (\<not> turn_fails tz st x \<longrightarrow>
                (\<exists>y st'. mark_loop tz caller (x # rest) (res, errs, st)
                       = mark_loop tz caller rest (res @ [y], errs, st')
                     \<and> result_record y = x)))"
proof -
  from mark_loop_shape [of tz caller recs "[]" "[]" db] obtain ra ea st' where
    loop: "mark_loop tz caller recs ([], [], db) = (ra, ea, st')"
    and ok: "batch_ok tz db recs ra ea st'" by auto
  let ?d = "\<lparr>results = ra, errors = ea, processed = length ra, failed = length ea\<rparr>"
  have m: "markAttendance tz db caller recs = (Json200 ?d, st')"
    using assms loop by (simp add: markAttendance_def)
  have "mark_loop tz caller recs ([], [], db) = (results ?d, errors ?d, st')
           \<and> processed ?d = length (results ?d) \<and> failed ?d = length (errors ?d)
           \<and> length (results ?d) + length (errors ?d) = length recs
           \<and> (\<forall>r\<in>set recs. r \<in> error_record ` set (errors ?d)
                               \<or> r \<in> result_record ` set (results ?d))
           \<and> (\<forall>r\<in>set recs. fails_check db r \<longrightarrow> r \<in> error_record ` set (errors ?d))
           \<and> (\<forall>r\<in>set recs. record_bounds tz r = None \<longrightarrow> r \<in> error_record ` set (errors ?d))
           \<and> (\<forall>r\<in>set recs. \<not> store_accepts r \<and> \<not> list_ex (on_day tz r) (attendances st') \<longrightarrow>
                  r \<in> error_record ` set (errors ?d))
           \<and> (\<forall>r\<in>set recs. \<not> fails_check db r \<and> store_accepts r \<and> day_holds_date tz r \<longrightarrow>
                  r \<in> result_record ` set (results ?d))
           \<and> (\<forall>x\<in>set (results ?d). result_status x = ''marked'' \<longrightarrow>
                  store_accepts (result_record x))"
    using ok loop by (simp add: batch_ok_def)
  with m have first: "\<exists>d db'. markAttendance tz db caller recs = (Json200 d, db')
           \<and> mark_loop tz caller recs ([], [], db) = (results d, errors d, db')
           \<and> processed d = length (results d) \<and> failed d = length (errors d)
           \<and> length (results d) + length (errors d) = length recs
           \<and> (\<forall>r\<in>set recs. r \<in> error_record ` set (errors d)
                               \<or> r \<in> result_record ` set (results d))
           \<and> (\<forall>r\<in>set recs. fails_check db r \<longrightarrow> r \<in> error_record ` set (errors d))
           \<and> (\<forall>r\<in>set recs. record_bounds tz r = None \<longrightarrow> r \<in> error_record ` set (errors d))
           \<and> (\<forall>r\<in>set recs. \<not> store_accepts r \<and> \<not> list_ex (on_day tz r) (attendances db') \<longrightarrow>
                  r \<in> error_record ` set (errors d))
           \<and> (\<forall>r\<in>set recs. \<not> fails_check db r \<and> store_accepts r \<and> day_holds_date tz r \<longrightarrow>
                  r \<in> result_record ` set (results d))
           \<and> (\<forall>x\<in>set (results d). result_status x = ''marked'' \<longrightarrow>
                  store_accepts (result_record x))"
    by (intro exI [of _ ?d] exI [of _ st'] conjI) blast+
  have second: "\<forall>x rest res errs st.
             (turn_fails tz st x \<longrightarrow>
                (\<exists>e. mark_loop tz caller (x # rest) (res, errs, st)
                       = mark_loop tz caller rest
                           (res, errs @ [\<lparr>error_record = x, error_message = e\<rparr>], st)))
             \<and> (\<not> turn_fails tz st x \<longrightarrow>
                (\<exists>y st'. mark_loop tz caller (x # rest) (res, errs, st)
                       = mark_loop tz caller rest (res @ [y], errs, st')
                     \<and> result_record y = x))"
    using mark_loop_after_failure mark_loop_after_success by blast
  from first second show ?thesis by (rule conjI)
qed

lemma karachi_sample_days:
  "day_bounds karachi (TextDate 259200000) = Some (241200000, 327600000)"
  "day_bounds karachi (TextDate 432000000) = Some (414000000, 500400000)"
  "day_bounds karachi (NumericDate 9000000000000000) = None"
  "day_bounds karachi UnreadableText = None"
  by (simp_all add: day_bounds_def time_value_def valid_time_def max_time_def karachi_def
      offset_zone_def)

lemma sample_batch_steps:
  "mark_step karachi sample_teacher without_status ([], [], sample_db)
     = ([], [\<lparr>error_record = without_status,
              error_message = ''Missing required fields: student, course, date, status''\<rparr>],
        sample_db)"
  "mark_step karachi sample_teacher date_zero (res, errs, sample_db)
     = (res, errs @ [\<lparr>error_record = date_zero,
              error_message = ''Missing required fields: student, course, date, status''\<rparr>],
        sample_db)"
  "mark_step karachi sample_teacher (sample_mark ''s2'' 259200000 ''present'') (res, errs, sample_db)
     = (res, errs @ [\<lparr>error_record = sample_mark ''s2'' 259200000 ''present'',
              error_message = ''Student is not enrolled in this course''\<rparr>], sample_db)"
  "mark_step karachi sample_teacher out_of_range (res, errs, sample_db)
     = (res, errs @ [\<lparr>error_record = out_of_range, error_message = ''Cast to date failed''\<rparr>],
        sample_db)"
  "mark_step karachi sample_teacher unreadable_date (res, errs, sample_db)
     = (res, errs @ [\<lparr>error_record = unreadable_date, error_message = ''Cast to date failed''\<rparr>],
        sample_db)"
  "mark_step karachi sample_teacher (sample_mark ''s1'' 432000000 ''asleep'') (res, errs, sample_db)
     = (res, errs @ [\<lparr>error_record = sample_mark ''s1'' 432000000 ''asleep'',
              error_message = ''Attendance validation failed''\<rparr>], sample_db)"
  "mark_step karachi sample_teacher (sample_mark ''s1'' 259200000 ''present'') (res, errs, sample_db)
     = (res @ [\<lparr>result_record = sample_mark ''s1'' 259200000 ''present'',
                 result_status = ''marked'', attendanceId = 5\<rparr>], errs, sample_batch_store)"
  by (simp_all add: mark_step_def missing_required_def truthy_def date_falsy_def
      without_status_def date_zero_def out_of_range_def unreadable_date_def sample_mark_def karachi_sample_days
      enrolled_in_def sample_db_def existingAttendance_def same_day_record_def
      sample_attendance_def Attendance_create_def status_enum_def method_enum_def
      new_attendance_id_def sample_teacher_def sample_batch_store_def time_value_def
      valid_time_def max_time_def Let_def)

lemma sample_batch_reply:
  "markAttendance karachi sample_db sample_teacher sample_batch
     = (Json200 sample_batch_data, sample_batch_store)"
  by (simp add: markAttendance_def sample_batch_def sample_batch_steps sample_batch_data_def)

lemma sample_batch_fails:
  "fails_check sample_db without_status"
  "fails_check sample_db date_zero"
  "fails_check sample_db (sample_mark ''s2'' 259200000 ''present'')"
  by (simp_all add: fails_check_def missing_required_def truthy_def date_falsy_def
      without_status_def date_zero_def sample_mark_def enrolled_in_def sample_db_def)

lemma sample_batch_no_bounds:
  "record_bounds karachi out_of_range = None"
  "record_bounds karachi unreadable_date = None"
  by (simp_all add: record_bounds_def out_of_range_def unreadable_date_def karachi_sample_days)

lemma sample_batch_refused:
  "\<not> store_accepts (sample_mark ''s1'' 432000000 ''asleep'')"
  "\<not> list_ex (on_day karachi (sample_mark ''s1'' 432000000 ''asleep''))
       (attendances sample_batch_store)"
  by (simp_all add: sample_mark_def record_bounds_def karachi_sample_days store_accepts_def
      status_enum_def method_enum_def on_day_def same_day_record_def sample_batch_store_def
      sample_db_def sample_attendance_def)

lemma sample_batch_marked:
  "\<not> fails_check sample_db (sample_mark ''s1'' 259200000 ''present'')"
  "store_accepts (sample_mark ''s1'' 259200000 ''present'')"
  "day_holds_date karachi (sample_mark ''s1'' 259200000 ''present'')"
  by (simp_all add: fails_check_def missing_required_def truthy_def date_falsy_def
      sample_mark_def record_bounds_def karachi_sample_days enrolled_in_def sample_db_def
      store_accepts_def status_enum_def method_enum_def day_holds_date_def time_value_def
      valid_time_def max_time_def)

theorem batch_never_aborts_witness:
  "sample_batch \<noteq> []
   \<and> markAttendance karachi sample_db sample_teacher sample_batch
       = (Json200 sample_batch_data, sample_batch_store)
   \<and> processed sample_batch_data = length (results sample_batch_data)
   \<and> failed sample_batch_data = length (errors sample_batch_data)
   \<and> length (results sample_batch_data) + length (errors sample_batch_data) = length sample_batch
   \<and> fails_check sample_db without_status
   \<and> without_status \<in> error_record ` set (errors sample_batch_data)
   \<and> fails_check sample_db date_zero
   \<and> date_zero \<in> error_record ` set (errors sample_batch_data)
   \<and> record_bounds karachi out_of_range = None
   \<and> out_of_range \<in> error_record ` set (errors sample_batch_data)
   \<and> record_bounds karachi unreadable_date = None
   \<and> unreadable_date \<in> error_record ` set (errors sample_batch_data)
   \<and> \<not> store_accepts (sample_mark ''s1'' 432000000 ''asleep'')
   \<and> \<not> list_ex (on_day karachi (sample_mark ''s1'' 432000000 ''asleep''))
         (attendances sample_batch_store)
   \<and> sample_mark ''s1'' 432000000 ''asleep'' \<in> error_record ` set (errors sample_batch_data)
   \<and> \<not> fails_check sample_db (sample_mark ''s1'' 259200000 ''present'')
   \<and> store_accepts (sample_mark ''s1'' 259200000 ''present'')
   \<and> day_holds_date karachi (sample_mark ''s1'' 259200000 ''present'')
   \<and> sample_mark ''s1'' 259200000 ''present'' \<in> result_record ` set (results sample_batch_data)"
proof -
  have ne: "sample_batch \<noteq> []" by (simp add: sample_batch_def)
  have mem: "without_status \<in> set sample_batch" "date_zero \<in> set sample_batch"
    "out_of_range \<in> set sample_batch" "unreadable_date \<in> set sample_batch"
    "sample_mark ''s1'' 432000000 ''asleep'' \<in> set sample_batch"
    "sample_mark ''s1'' 259200000 ''present'' \<in> set sample_batch"
    by (simp_all add: sample_batch_def)
  from batch_never_aborts [OF ne, where tz = karachi and db = sample_db and caller = sample_teacher]
  obtain d db' where
    r: "markAttendance karachi sample_db sample_teacher sample_batch = (Json200 d, db')"
    and p: "processed d = length (results d)" "failed d = length (errors d)"
      "length (results d) + length (errors d) = length sample_batch"
    and f: "\<forall>r\<in>set sample_batch. fails_check sample_db r \<longrightarrow> r \<in> error_record ` set (errors d)"
    and nb: "\<forall>r\<in>set sample_batch. record_bounds karachi r = None \<longrightarrow>
               r \<in> error_record ` set (errors d)"
    and rf: "\<forall>r\<in>set sample_batch. \<not> store_accepts r
               \<and> \<not> list_ex (on_day karachi r) (attendances db') \<longrightarrow>
               r \<in> error_record ` set (errors d)"
    and ps: "\<forall>r\<in>set sample_batch. \<not> fails_check sample_db r \<and> store_accepts r
               \<and> day_holds_date karachi r \<longrightarrow> r \<in> result_record ` set (results d)"
    by blast
  have d: "d = sample_batch_data" and s: "db' = sample_batch_store"
    using r sample_batch_reply by simp_all
  note fl = sample_batch_fails and nob = sample_batch_no_bounds
    and ref = sample_batch_refused and mk = sample_batch_marked
  have e1: "without_status \<in> error_record ` set (errors sample_batch_data)"
    using f fl(1) mem(1) unfolding d by blast
  have e2: "date_zero \<in> error_record ` set (errors sample_batch_data)"
    using f fl(2) mem(2) unfolding d by blast
  have e3: "out_of_range \<in> error_record ` set (errors sample_batch_data)"
    using nb nob(1) mem(3) unfolding d by blast
  have e4: "unreadable_date \<in> error_record ` set (errors sample_batch_data)"
    using nb nob(2) mem(4) unfolding d by blast
  have e5: "sample_mark ''s1'' 432000000 ''asleep'' \<in> error_record ` set (errors sample_batch_data)"
    using rf ref mem(5) unfolding d s by blast
  have e6: "sample_mark ''s1'' 259200000 ''present'' \<in> result_record ` set (results sample_batch_data)"
    using ps mk mem(6) unfolding d by blast
  show ?thesis
    using p [unfolded d]
    by (intro conjI ne sample_batch_reply fl(1) e1 fl(2) e2 nob(1) e3 nob(2) e4 ref(1) ref(2) e5
        mk(1) mk(2) mk(3) e6)
qed

text \<open>
  C8, as stated for every list, fails at the empty list: the reply is 400 with a message
  and carries no results, errors or counts.
\<close>

theorem empty_batch_counterexample:
  "markAttendance karachi sample_db sample_teacher []
     = (JsonError 400 ''Please provide attendance records'', sample_db)"
  by (simp add: markAttendance_def)

section \<open>Attendance of a class: the average\<close>

lemma update_fresh:
  "k \<notin> fst ` set al \<Longrightarrow> AList.update k v al = al @ [(k, v)]"
  by (induction al) auto

lemma fold_update_fresh:
  "distinct ids \<Longrightarrow> set ids \<inter> fst ` set acc = {} \<Longrightarrow>
     fold (\<lambda>sid m. AList.update sid (f sid) m) ids acc = acc @ map (\<lambda>sid. (sid, f sid)) ids"
proof (induction ids arbitrary: acc)
  case Nil
  then show ?case by simp
next
  case (Cons a ids)
  have fresh: "a \<notin> fst ` set acc" using Cons.prems(2) by auto
  have d: "distinct ids" and n: "a \<notin> set ids" using Cons.prems(1) by auto
  have "set ids \<inter> fst ` set (acc @ [(a, f a)]) = {}"
    using Cons.prems(2) n by auto
  from Cons.IH [OF d this] show ?case
    by (simp add: update_fresh [OF fresh])
qed

lemma init_by_student_map:
  "distinct ids \<Longrightarrow> init_by_student studs ids = map (\<lambda>sid. (sid, init_entry studs sid)) ids"
  using fold_update_fresh [of ids "[]" "init_entry studs"] by (simp add: init_by_student_def)

lemma init_entry_grouped: "init_entry studs sid = grouped_entry studs [] sid"
  by (simp add: init_entry_def grouped_entry_def records_of_def count_status_def)

lemma map_of_keyed:
  "map_of (map (\<lambda>sid. (sid, f sid)) ids) k = (if k \<in> set ids then Some (f k) else None)"
  by (induction ids) auto

lemma update_keyed:
  "distinct ids \<Longrightarrow> k \<in> set ids \<Longrightarrow>
     AList.update k v (map (\<lambda>sid. (sid, f sid)) ids)
       = map (\<lambda>sid. (sid, if sid = k then v else f sid)) ids"
  by (induction ids) auto

lemma count_record_grouped:
  "att_student r = k \<Longrightarrow>
     count_record r (grouped_entry studs rs k) = grouped_entry studs (rs @ [r]) k"
  by (simp add: count_record_def grouped_entry_def records_of_def count_status_def Let_def)

lemma grouped_entry_other:
  "att_student r \<noteq> sid \<Longrightarrow> grouped_entry studs (rs @ [r]) sid = grouped_entry studs rs sid"
  by (simp add: grouped_entry_def records_of_def)

lemma add_record_grouped:
  assumes "distinct ids"
  shows "add_record r (map (\<lambda>sid. (sid, grouped_entry studs rs sid)) ids)
           = map (\<lambda>sid. (sid, grouped_entry studs (rs @ [r]) sid)) ids"
proof (cases "att_student r \<in> set ids")
  case True
  have "map (\<lambda>sid. (sid, if sid = att_student r
                           then count_record r (grouped_entry studs rs (att_student r))
                           else grouped_entry studs rs sid)) ids
          = map (\<lambda>sid. (sid, grouped_entry studs (rs @ [r]) sid)) ids"
    by (rule map_cong) (auto simp add: count_record_grouped grouped_entry_other)
  then show ?thesis
    using True by (simp add: add_record_def map_of_keyed update_keyed [OF assms True])
next
  case False
  have "map (\<lambda>sid. (sid, grouped_entry studs rs sid)) ids
          = map (\<lambda>sid. (sid, grouped_entry studs (rs @ [r]) sid)) ids"
  proof (rule map_cong [OF refl])
    fix x assume "x \<in> set ids"
    with False have "att_student r \<noteq> x" by auto
    then show "(x, grouped_entry studs rs x) = (x, grouped_entry studs (rs @ [r]) x)"
      by (simp add: grouped_entry_other)
  qed
  then show ?thesis
    using False by (simp add: add_record_def map_of_keyed)
qed

lemma fold_add_record_grouped:
  assumes "distinct ids"
  shows "fold add_record recs (map (\<lambda>sid. (sid, grouped_entry studs seen sid)) ids)
           = map (\<lambda>sid. (sid, grouped_entry studs (seen @ recs) sid)) ids"
proof (induction recs arbitrary: seen)
  case Nil
  show ?case by simp
next
  case (Cons r recs)
  show ?case
    using Cons.IH [of "seen @ [r]"] by (simp add: add_record_grouped [OF assms])
qed

lemma grouped_all:
  assumes "distinct ids"
  shows "fold add_record recs (init_by_student studs ids)
           = map (\<lambda>sid. (sid, grouped_entry studs recs sid)) ids"
  using fold_add_record_grouped [OF assms, of recs studs "[]"]
  by (simp add: init_by_student_map [OF assms] init_entry_grouped)


lemma set_rate_keeps:
  "entry_records (set_rate e) = entry_records e"
  "entry_student (set_rate e) = entry_student e"
  "stat_total (entry_statistics (set_rate e)) = stat_total (entry_statistics e)"
  "stat_present (entry_statistics (set_rate e)) = stat_present (entry_statistics e)"
  by (simp_all add: set_rate_def Let_def)

lemma set_rate_grouped:
  "stat_rate (entry_statistics (set_rate (grouped_entry studs rs sid))) = rate_of (records_of rs sid)"
  by (simp add: set_rate_def grouped_entry_def rate_of_def Let_def)

lemma grouped_fields:
  "entry_records (grouped_entry studs rs sid) = records_of rs sid"
  "stat_total (entry_statistics (grouped_entry studs rs sid)) = length (records_of rs sid)"
  "stat_present (entry_statistics (grouped_entry studs rs sid)) = count_status ''present'' (records_of rs sid)"
  by (simp_all add: grouped_entry_def)

lemma fold_plus: "fold (\<lambda>rate sum. sum + rate) xs (a::int) = a + sum_list xs"
  by (induction xs arbitrary: a) auto

lemma rated_with_records:
  "filter (\<lambda>s. stat_total (entry_statistics s) > 0)
     (map (\<lambda>sid. set_rate (grouped_entry studs rs sid)) ids)
     = map (\<lambda>sid. set_rate (grouped_entry studs rs sid)) (with_records rs ids)"
  by (simp add: filter_map comp_def set_rate_keeps grouped_fields with_records_def)

lemma class_average_grouped:
  "class_average (map (\<lambda>sid. set_rate (grouped_entry studs rs sid)) ids)
     = (if with_records rs ids = [] then 0
        else Math_round
               (double_divide
                  (real_of_int (sum_list (map (\<lambda>sid. rate_of (records_of rs sid))
                                            (with_records rs ids))))
                  (real (length (with_records rs ids)))))"
  unfolding class_average_def rated_with_records
  by (simp add: Let_def comp_def set_rate_grouped fold_plus)

lemma class_ids_distinct:
  "distinct (map student_id (students db)) \<Longrightarrow> distinct (class_ids db classId q)"
  by (simp add: class_ids_def class_students_def distinct_map_filter)

lemma getClassAttendance_grouped:
  assumes "distinct (map student_id (students db))"
  shows "getClassAttendance db classId q =
           Json200
             \<lparr>attendanceByStudent =
                map (\<lambda>sid. (sid, set_rate (grouped_entry (class_students db classId (class_section q))
                                             (class_recs db classId q) sid)))
                  (class_ids db classId q),
              classSummary =
                \<lparr>totalStudents = length (class_ids db classId q),
                 studentsWithAttendance =
                   length (with_records (class_recs db classId q) (class_ids db classId q)),
                 classAverage =
                   class_average
                     (map (\<lambda>sid. set_rate (grouped_entry (class_students db classId (class_section q))
                                              (class_recs db classId q) sid))
                        (class_ids db classId q))\<rparr>\<rparr>"
proof -
  let ?studs = "class_students db classId (class_section q)"
  let ?ids = "class_ids db classId q"
  let ?recs = "class_recs db classId q"
  have g: "fold add_record ?recs (init_by_student ?studs ?ids)
             = map (\<lambda>sid. (sid, grouped_entry ?studs ?recs sid)) ?ids"
    by (rule grouped_all [OF class_ids_distinct [OF assms]])
  have r: "map (\<lambda>(k, e). (k, set_rate e)) (map (\<lambda>sid. (sid, grouped_entry ?studs ?recs sid)) ?ids)
             = map (\<lambda>sid. (sid, set_rate (grouped_entry ?studs ?recs sid))) ?ids"
    by simp
  have s: "map snd (map (\<lambda>sid. (sid, set_rate (grouped_entry ?studs ?recs sid))) ?ids)
             = map (\<lambda>sid. set_rate (grouped_entry ?studs ?recs sid)) ?ids"
    by (simp add: comp_def)
  have "getClassAttendance db classId q =
          Json200
            \<lparr>attendanceByStudent = map (\<lambda>sid. (sid, set_rate (grouped_entry ?studs ?recs sid))) ?ids,
             classSummary =
               \<lparr>totalStudents = length ?ids,
                studentsWithAttendance =
                  length (filter (\<lambda>s. stat_total (entry_statistics s) > 0)
                            (map (\<lambda>sid. set_rate (grouped_entry ?studs ?recs sid)) ?ids)),
                classAverage =
                  class_average (map (\<lambda>sid. set_rate (grouped_entry ?studs ?recs sid)) ?ids)\<rparr>\<rparr>"
    unfolding getClassAttendance_def Let_def
    unfolding class_ids_def [symmetric] class_recs_def [symmetric]
    unfolding g r s by simp
  then show ?thesis by (simp only: rated_with_records length_map)
qed


lemma class_rates:
  "Math_round (double_times (double_divide 2 2) 100) = 100"
  "Math_round (double_times (double_divide 1 2) 100) = 50"
  "Math_round (double_divide 150 2) = 75"
  "Math_round (double_divide 57 1) = 57"
  by code_simp+

lemma class_db_distinct: "distinct (map student_id (students class_db))"
  by (simp add: class_db_def sample_students_def)

lemma class_db_ids: "class_ids class_db ''k1'' whole_class = [''s1'', ''s2'', ''s3'']"
  by (simp add: class_ids_def class_students_def class_db_def sample_students_def
      whole_class_def truthy_def)

lemma class_db_recs: "class_recs class_db ''k1'' whole_class = attendances class_db"
  unfolding class_recs_def class_db_ids
  by (simp add: class_records_def class_db_def whole_class_def date_in_range_def
      sample_attendance_def)

lemma class_db_with_records:
  "with_records (attendances class_db) [''s1'', ''s2'', ''s3''] = [''s1'', ''s2'']"
  by (simp add: with_records_def records_of_def class_db_def sample_attendance_def)

lemma class_db_lengths:
  "length (records_of (attendances class_db) ''s1'') = 2"
  "length (records_of (attendances class_db) ''s2'') = 2"
  "length (records_of (attendances class_db) ''s3'') = 0"
  by (simp_all add: records_of_def class_db_def sample_attendance_def)

lemma class_db_present:
  "count_status ''present'' (records_of (attendances class_db) ''s1'') = 2"
  "count_status ''present'' (records_of (attendances class_db) ''s2'') = 1"
  by (simp_all add: records_of_def class_db_def sample_attendance_def count_status_def)

lemma class_db_rates:
  "rate_of (records_of (attendances class_db) ''s1'') = 100"
  "rate_of (records_of (attendances class_db) ''s2'') = 50"
  "rate_of (records_of (attendances class_db) ''s3'') = 0"
proof -
  have n: "records_of (attendances class_db) ''s1'' \<noteq> []"
    "records_of (attendances class_db) ''s2'' \<noteq> []"
    "records_of (attendances class_db) ''s3'' = []"
    using class_db_lengths by auto
  show "rate_of (records_of (attendances class_db) ''s1'') = 100"
    using n(1) by (simp add: rate_of_def class_db_lengths class_db_present class_rates)
  show "rate_of (records_of (attendances class_db) ''s2'') = 50"
    using n(2) by (simp add: rate_of_def class_db_lengths class_db_present class_rates)
  show "rate_of (records_of (attendances class_db) ''s3'') = 0"
    using n(3) by (simp add: rate_of_def)
qed

lemma class_db_reply:
  "\<exists>d. getClassAttendance class_db ''k1'' whole_class = Json200 d
       \<and> map (\<lambda>(k, e). (k, stat_total (entry_statistics e), stat_rate (entry_statistics e)))
             (attendanceByStudent d)
           = [(''s1'', 2, 100), (''s2'', 2, 50), (''s3'', 0, 0)]
       \<and> classSummary d = \<lparr>totalStudents = 3, studentsWithAttendance = 2, classAverage = 75\<rparr>"
proof -
  note g = getClassAttendance_grouped [OF class_db_distinct, of "''k1''" whole_class]
  let ?S = "class_students class_db ''k1'' (class_section whole_class)"
  let ?R = "attendances class_db"
  have a: "class_average [set_rate (grouped_entry ?S ?R ''s1''), set_rate (grouped_entry ?S ?R ''s2''),
                          set_rate (grouped_entry ?S ?R ''s3'')] = 75"
    using class_average_grouped [of ?S ?R "[''s1'', ''s2'', ''s3'']"]
    by (simp add: class_db_with_records class_db_rates class_rates)
  show ?thesis
    unfolding g class_db_ids class_db_recs
    by (simp add: set_rate_keeps set_rate_grouped grouped_fields class_db_lengths class_db_rates
        class_db_with_records a)
qed

text \<open>
  C6. In a store whose students have distinct identifiers, the summary of a class lists
  every student of the class, in order, with the records in range of that student, their
  number and the rate, \<open>Math.round\<close> of the double \<open>(present / total) * 100\<close>, which
  is 0 for a student without a record. \<open>totalStudents\<close> counts all of them,
  \<open>studentsWithAttendance\<close> only those with a record, and \<open>classAverage\<close> is
  \<open>Math.round\<close> of the double quotient of the sum of the rates of those with a record
  by their number, 0 when there is none: a student without a record is not in the
  denominator. For the class of three with rates 100, 50 and no record the average is 75.
\<close>

theorem class_average_skips_students_without_records:
  assumes "distinct (map student_id (students db))"
  shows "(\<exists>d. getClassAttendance db classId q = Json200 d
           \<and> map fst (attendanceByStudent d) = class_ids db classId q
           \<and> (\<forall>sid\<in>set (class_ids db classId q).
                 \<exists>e. map_of (attendanceByStudent d) sid = Some e
                    \<and> entry_records e = records_of (class_recs db classId q) sid
                    \<and> stat_total (entry_statistics e)
                        = length (records_of (class_recs db classId q) sid)
                    \<and> stat_rate (entry_statistics e)
                        = rate_of (records_of (class_recs db classId q) sid))
           \<and> totalStudents (classSummary d) = length (class_ids db classId q)
           \<and> studentsWithAttendance (classSummary d)
               = length (with_records (class_recs db classId q) (class_ids db classId q))
           \<and> classAverage (classSummary d)
               = (if with_records (class_recs db classId q) (class_ids db classId q) = [] then 0
                  else Math_round
                         (double_divide
                            (real_of_int
                               (sum_list (map (\<lambda>sid. rate_of (records_of (class_recs db classId q) sid))
                                            (with_records (class_recs db classId q)
                                               (class_ids db classId q)))))
                            (real (length (with_records (class_recs db classId q)
                                             (class_ids db classId q)))))))
       \<and> rate_of [] = 0
       \<and> (\<exists>d. getClassAttendance class_db ''k1'' whole_class = Json200 d
             \<and> map (\<lambda>(k, e). (k, stat_total (entry_statistics e), stat_rate (entry_statistics e)))
                   (attendanceByStudent d)
                 = [(''s1'', 2, 100), (''s2'', 2, 50), (''s3'', 0, 0)]
             \<and> classSummary d
                 = \<lparr>totalStudents = 3, studentsWithAttendance = 2, classAverage = 75\<rparr>)"
proof -
  let ?studs = "class_students db classId (class_section q)"
  let ?ids = "class_ids db classId q"
  let ?recs = "class_recs db classId q"
  let ?by = "map (\<lambda>sid. (sid, set_rate (grouped_entry ?studs ?recs sid))) ?ids"
  let ?d = "\<lparr>attendanceByStudent = ?by,
             classSummary =
               \<lparr>totalStudents = length ?ids,
                studentsWithAttendance = length (with_records ?recs ?ids),
                classAverage =
                  class_average (map (\<lambda>sid. set_rate (grouped_entry ?studs ?recs sid)) ?ids)\<rparr>\<rparr>"
  have reply: "getClassAttendance db classId q = Json200 ?d"
    by (rule getClassAttendance_grouped [OF assms])
  have keys: "map fst (attendanceByStudent ?d) = ?ids"
    by (simp add: comp_def)
  have entries: "\<forall>sid\<in>set ?ids.
                 \<exists>e. map_of (attendanceByStudent ?d) sid = Some e
                    \<and> entry_records e = records_of ?recs sid
                    \<and> stat_total (entry_statistics e) = length (records_of ?recs sid)
                    \<and> stat_rate (entry_statistics e) = rate_of (records_of ?recs sid)"
    by (simp add: map_of_keyed set_rate_keeps set_rate_grouped grouped_fields)
  have counts: "totalStudents (classSummary ?d) = length ?ids"
    "studentsWithAttendance (classSummary ?d) = length (with_records ?recs ?ids)"
    by simp_all
  have avg: "classAverage (classSummary ?d)
               = (if with_records ?recs ?ids = [] then 0
                  else Math_round
                         (double_divide
                            (real_of_int (sum_list (map (\<lambda>sid. rate_of (records_of ?recs sid))
                                                      (with_records ?recs ?ids))))
                            (real (length (with_records ?recs ?ids)))))"
    by (simp add: class_average_grouped)
  have general: "\<exists>d. getClassAttendance db classId q = Json200 d
           \<and> map fst (attendanceByStudent d) = ?ids
           \<and> (\<forall>sid\<in>set ?ids.
                 \<exists>e. map_of (attendanceByStudent d) sid = Some e
                    \<and> entry_records e = records_of ?recs sid
                    \<and> stat_total (entry_statistics e) = length (records_of ?recs sid)
                    \<and> stat_rate (entry_statistics e) = rate_of (records_of ?recs sid))
           \<and> totalStudents (classSummary d) = length ?ids
           \<and> studentsWithAttendance (classSummary d) = length (with_records ?recs ?ids)
           \<and> classAverage (classSummary d)
               = (if with_records ?recs ?ids = [] then 0
                  else Math_round
                         (double_divide
                            (real_of_int (sum_list (map (\<lambda>sid. rate_of (records_of ?recs sid))
                                                      (with_records ?recs ?ids))))
                            (real (length (with_records ?recs ?ids)))))"
    by (rule exI [of _ ?d], intro conjI, rule reply, rule keys, rule entries,
        rule counts(1), rule counts(2), rule avg)
  have zero: "rate_of [] = 0" by (simp add: rate_of_def)
  show ?thesis
    by (intro conjI general zero class_db_reply)
qed


lemma forty_ids: "class_ids forty_db ''k1'' whole_class = [''s1'', ''s2'', ''s3'']"
  by (simp add: class_ids_def class_students_def forty_db_def sample_students_def
      whole_class_def truthy_def)

lemma forty_class:
  "class_records forty_db [''s1'', ''s2'', ''s3''] None None = forty_records"
  "with_records forty_records [''s1'', ''s2'', ''s3''] = [''s1'']"
  "rate_of (records_of forty_records ''s1'') = 57"
  by code_simp+

lemma forty_recs: "class_recs forty_db ''k1'' whole_class = forty_records"
  unfolding class_recs_def forty_ids by (simp add: whole_class_def forty_class(1))

theorem class_average_skips_students_without_records_witness:
  "distinct (map student_id (students class_db))
   \<and> class_ids class_db ''k1'' whole_class = [''s1'', ''s2'', ''s3'']
   \<and> with_records (class_recs class_db ''k1'' whole_class) (class_ids class_db ''k1'' whole_class)
       = [''s1'', ''s2'']
   \<and> (\<exists>d. getClassAttendance class_db ''k1'' whole_class = Json200 d
         \<and> totalStudents (classSummary d) = 3
         \<and> studentsWithAttendance (classSummary d) = 2
         \<and> classAverage (classSummary d) = 75)
   \<and> distinct (map student_id (students forty_db))
   \<and> (\<exists>d e. getClassAttendance forty_db ''k1'' whole_class = Json200 d
         \<and> map_of (attendanceByStudent d) ''s1'' = Some e
         \<and> stat_total (entry_statistics e) = 40
         \<and> stat_rate (entry_statistics e) = 57
         \<and> studentsWithAttendance (classSummary d) = 1
         \<and> classAverage (classSummary d) = 57)"
proof -
  have w: "with_records (class_recs class_db ''k1'' whole_class)
             (class_ids class_db ''k1'' whole_class) = [''s1'', ''s2'']"
    unfolding class_db_recs class_db_ids by (rule class_db_with_records)
  from class_average_skips_students_without_records [OF class_db_distinct, of "''k1''" whole_class]
  obtain d where
    reply: "getClassAttendance class_db ''k1'' whole_class = Json200 d"
    and t: "totalStudents (classSummary d) = length (class_ids class_db ''k1'' whole_class)"
    and n: "studentsWithAttendance (classSummary d)
              = length (with_records (class_recs class_db ''k1'' whole_class)
                          (class_ids class_db ''k1'' whole_class))"
    and a: "classAverage (classSummary d)
               = (if with_records (class_recs class_db ''k1'' whole_class)
                       (class_ids class_db ''k1'' whole_class) = [] then 0
                  else Math_round
                         (double_divide
                            (real_of_int
                               (sum_list (map (\<lambda>sid. rate_of (records_of (class_recs class_db ''k1'' whole_class) sid))
                                            (with_records (class_recs class_db ''k1'' whole_class)
                                               (class_ids class_db ''k1'' whole_class)))))
                            (real (length (with_records (class_recs class_db ''k1'' whole_class)
                                             (class_ids class_db ''k1'' whole_class))))))"
    by blast
  have t3: "totalStudents (classSummary d) = 3" using t by (simp add: class_db_ids)
  have n2: "studentsWithAttendance (classSummary d) = 2" using n by (simp add: w)
  have a75: "classAverage (classSummary d) = 75"
    using a unfolding w by (simp add: class_db_recs class_db_rates class_rates)
  have first: "\<exists>d. getClassAttendance class_db ''k1'' whole_class = Json200 d
         \<and> totalStudents (classSummary d) = 3
         \<and> studentsWithAttendance (classSummary d) = 2
         \<and> classAverage (classSummary d) = 75"
    using reply t3 n2 a75 by blast
  have dis: "distinct (map student_id (students forty_db))"
    by (simp add: forty_db_def sample_students_def)
  have w': "with_records (class_recs forty_db ''k1'' whole_class)
              (class_ids forty_db ''k1'' whole_class) = [''s1'']"
    unfolding forty_recs forty_ids by (rule forty_class(2))
  have in_ids: "''s1'' \<in> set (class_ids forty_db ''k1'' whole_class)"
    by (simp add: forty_ids)
  from class_average_skips_students_without_records [OF dis, of "''k1''" whole_class]
  obtain d' where
    reply': "getClassAttendance forty_db ''k1'' whole_class = Json200 d'"
    and e': "\<forall>sid\<in>set (class_ids forty_db ''k1'' whole_class).
                 \<exists>e. map_of (attendanceByStudent d') sid = Some e
                    \<and> entry_records e = records_of (class_recs forty_db ''k1'' whole_class) sid
                    \<and> stat_total (entry_statistics e)
                        = length (records_of (class_recs forty_db ''k1'' whole_class) sid)
                    \<and> stat_rate (entry_statistics e)
                        = rate_of (records_of (class_recs forty_db ''k1'' whole_class) sid)"
    and n': "studentsWithAttendance (classSummary d')
              = length (with_records (class_recs forty_db ''k1'' whole_class)
                          (class_ids forty_db ''k1'' whole_class))"
    and a': "classAverage (classSummary d')
               = (if with_records (class_recs forty_db ''k1'' whole_class)
                       (class_ids forty_db ''k1'' whole_class) = [] then 0
                  else Math_round
                         (double_divide
                            (real_of_int
                               (sum_list (map (\<lambda>sid. rate_of (records_of (class_recs forty_db ''k1'' whole_class) sid))
                                            (with_records (class_recs forty_db ''k1'' whole_class)
                                               (class_ids forty_db ''k1'' whole_class)))))
                            (real (length (with_records (class_recs forty_db ''k1'' whole_class)
                                             (class_ids forty_db ''k1'' whole_class))))))"
    by blast
  from e' in_ids obtain e where
    m: "map_of (attendanceByStudent d') ''s1'' = Some e"
    and et: "stat_total (entry_statistics e)
               = length (records_of (class_recs forty_db ''k1'' whole_class) ''s1'')"
    and er: "stat_rate (entry_statistics e)
               = rate_of (records_of (class_recs forty_db ''k1'' whole_class) ''s1'')"
    by blast
  have l40: "length (records_of forty_records ''s1'') = 40" by code_simp
  have et40: "stat_total (entry_statistics e) = 40" using et by (simp add: forty_recs l40)
  have er57: "stat_rate (entry_statistics e) = 57" using er by (simp add: forty_recs forty_class(3))
  have n1: "studentsWithAttendance (classSummary d') = 1" using n' by (simp add: w')
  have a57: "classAverage (classSummary d') = 57"
    using a' unfolding w' by (simp add: forty_recs forty_class(3) class_rates)
  have second: "\<exists>d e. getClassAttendance forty_db ''k1'' whole_class = Json200 d
         \<and> map_of (attendanceByStudent d) ''s1'' = Some e
         \<and> stat_total (entry_statistics e) = 40
         \<and> stat_rate (entry_statistics e) = 57
         \<and> studentsWithAttendance (classSummary d) = 1
         \<and> classAverage (classSummary d) = 57"
    using reply' m et40 er57 n1 a57 by blast
  show ?thesis
    by (intro conjI class_db_distinct class_db_ids w first dis second)
qed

end
